theory Spec2Isabelle
  imports Complex_Main
begin

section \<open>Values and errors\<close>

text \<open>
  Canonical time values and data values are 64-bit floats in the program. They are
  modelled as exact reals; the results of a division are modelled as \<open>npfloat\<close>, which
  keeps the two outcomes numpy gives where exact arithmetic has none: an infinity
  (non-zero over zero) and not-a-number (zero over zero). Rounding error of the
  floating-point operations and the sign of zero are not modelled.
\<close>

datatype error =
    TypeError string
  | ValueError string
  | IndexError
  | KeyError string
  | ZeroDivisionError
  | RuntimeError string

datatype npfloat = Fin real | PInf | NInf | NaN

definition np_div :: "real \<Rightarrow> real \<Rightarrow> npfloat" where
  \<comment> \<open>numpy true division of two finite floats (a warning, never an exception).\<close>
  "np_div a b =
     (if b = 0 then (if a = 0 then NaN else if 0 < a then PInf else NInf)
      else Fin (a / b))"

section \<open>process/correlograms.py: \<open>_cross_correlogram\<close>\<close>

text \<open>
  The function is \<open>cross_correlogram\<close> below (a name cannot begin with an underscore).
  Its three \<open>while\<close> loops are recursive functions with a measure, its two \<open>for\<close> loops
  are folds over the range.

  \<^verbatim>\<open>while i2 < nt2 and t2[i2] < lbound: i2 = i2 + 1\<close>
\<close>

function advance_i2 :: "real list \<Rightarrow> real \<Rightarrow> nat \<Rightarrow> nat" where
  "advance_i2 t2 lbound i2 =
     (if i2 < length t2 \<and> t2 ! i2 < lbound then advance_i2 t2 lbound (i2 + 1) else i2)"
  by pat_completeness auto
termination
  by (relation "measure (\<lambda>(t2, lbound, i2). length t2 - i2)") auto

declare advance_i2.simps [simp del]

text \<open>
  \<^verbatim>\<open>while i2 > 0 and t2[i2 - 1] > lbound: i2 = i2 - 1\<close>
\<close>

function retreat_i2 :: "real list \<Rightarrow> real \<Rightarrow> nat \<Rightarrow> nat" where
  "retreat_i2 t2 lbound i2 =
     (if 0 < i2 \<and> lbound < t2 ! (i2 - 1) then retreat_i2 t2 lbound (i2 - 1) else i2)"
  by pat_completeness auto
termination
  by (relation "measure (\<lambda>(t2, lbound, i2). i2)") auto

declare retreat_i2.simps [simp del]

text \<open>
  \<^verbatim>\<open>while leftb < nt2 and t2[leftb] < rbound: leftb = leftb + 1; k = k + 1\<close>
  returning the pair \<open>(leftb, k)\<close>.
\<close>

function count_bin :: "real list \<Rightarrow> real \<Rightarrow> nat \<Rightarrow> nat \<Rightarrow> nat \<times> nat" where
  "count_bin t2 rbound leftb k =
     (if leftb < length t2 \<and> t2 ! leftb < rbound
      then count_bin t2 rbound (leftb + 1) (k + 1) else (leftb, k))"
  by pat_completeness auto
termination
  by (relation "measure (\<lambda>(t2, rbound, leftb, k). length t2 - leftb)") auto

declare count_bin.simps [simp del]

text \<open>
  The body of \<^verbatim>\<open>for j in range(nbins)\<close>; the loop state is \<open>(rbound, leftb, C)\<close>.
\<close>

definition bin_step :: "real list \<Rightarrow> real \<Rightarrow> nat \<Rightarrow> real \<times> nat \<times> real list \<Rightarrow> real \<times> nat \<times> real list" where
  "bin_step t2 binsize j st =
     (case st of (rbound, leftb, C) \<Rightarrow>
        let rbound' = rbound + binsize;
            (leftb', k) = count_bin t2 rbound' leftb 0
        in (rbound', leftb', C[j := C ! j + real k]))"

text \<open>
  The body of \<^verbatim>\<open>for i1 in range(nt1)\<close>; the loop state is \<open>(i2, C)\<close>.
\<close>

definition ref_step :: "real list \<Rightarrow> real list \<Rightarrow> real \<Rightarrow> nat \<Rightarrow> real \<Rightarrow> nat \<Rightarrow> nat \<times> real list \<Rightarrow> nat \<times> real list" where
  "ref_step t1 t2 binsize nbins w i1 st =
     (case st of (i2, C) \<Rightarrow>
        let lbound = t1 ! i1 - w;
            i2' = retreat_i2 t2 lbound (advance_i2 t2 lbound i2);
            (rbound, leftb, C') = fold (bin_step t2 binsize) [0..<nbins] (lbound, i2', C)
        in (i2', C'))"

definition cross_correlogram :: "real list \<Rightarrow> real list \<Rightarrow> real \<Rightarrow> real \<Rightarrow> error + (npfloat list \<times> real list)" where
  \<comment> \<open>Floor division by zero raises; \<open>np.zeros\<close> of a negative length raises.\<close>
  "cross_correlogram t1 t2 binsize windowsize =
     (if binsize = 0 then Inl ZeroDivisionError
      else
        let nt1 = length t1;
            nbins0 = \<lfloor>(windowsize * 2) / binsize\<rfloor>;
            nbins1 = (if 2 * (nbins0 div 2) = nbins0 then nbins0 + 1 else nbins0)
        in if nbins1 < 0 then Inl (ValueError ''negative dimensions are not allowed'')
           else
             let nbins = nat nbins1;
                 w = (real nbins / 2) * binsize;
                 (i2, C) = fold (ref_step t1 t2 binsize nbins w) [0..<nt1] (0, replicate nbins 0);
                 C' = map (\<lambda>c. np_div c (real nt1 * binsize)) C;
                 m = - w + binsize / 2;
                 B = map (\<lambda>j. m + real j * binsize) [0..<nbins]
             in Inr (C', B))"

section \<open>core: helpers that are not among the sources at hand\<close>

text \<open>
  \<open>time_series.py\<close> imports \<open>IntervalSet\<close>, \<open>format_timestamps\<close>, \<open>sort_timestamps\<close>,
  \<open>jitrestrict\<close> and \<open>jittsrestrict\<close> from modules that are not available. They are
  modelled from the specification, each under a comment that says so.
\<close>

type_synonym IntervalSet = "(real \<times> real) list"

definition start_values :: "IntervalSet \<Rightarrow> real list" where
  \<comment> \<open>\<^verbatim>\<open>ep.start.values\<close>\<close>
  "start_values ep = map fst ep"

definition end_values :: "IntervalSet \<Rightarrow> real list" where
  \<comment> \<open>\<^verbatim>\<open>ep.end.values\<close>\<close>
  "end_values ep = map snd ep"

fun merge_intervals :: "IntervalSet \<Rightarrow> IntervalSet" where
  \<comment> \<open>Modelled from the spec: the merge step of the \<open>IntervalSet\<close> constructor, on pairs
      sorted by start: "two intervals merge if the next start is \<open>\<le>\<close> the current end".\<close>
  "merge_intervals [] = []"
| "merge_intervals [p] = [p]"
| "merge_intervals ((s1, e1) # (s2, e2) # r) =
     (if s2 \<le> e1 then merge_intervals ((s1, max e1 e2) # r)
      else (s1, e1) # merge_intervals ((s2, e2) # r))"

definition IntervalSet_init :: "real list \<Rightarrow> real list \<Rightarrow> error + IntervalSet" where
  \<comment> \<open>Modelled from the spec: the constructor \<^verbatim>\<open>IntervalSet(start=..., end=...)\<close>, which is
      missing: "sort by start" and merge; "constructing from malformed input (\<open>end < start\<close>
      for any pair) fails with a validation error". The class of that error is not given;
      it is taken to be ValueError, as for the other validation errors of the code.\<close>
  "IntervalSet_init ss es =
     (if length ss \<noteq> length es then Inl (ValueError ''mismatched array lengths'')
      else if list_ex (\<lambda>(s, e). e < s) (zip ss es) then Inl (ValueError ''end < start'')
      else Inr (merge_intervals (sort_key fst (zip ss es))))"

definition IntervalSet_empty :: IntervalSet where
  \<comment> \<open>Modelled from the spec: \<^verbatim>\<open>IntervalSet(pd.DataFrame(columns=["start", "end"]))\<close>, the
      interval set with zero intervals.\<close>
  "IntervalSet_empty = []"

definition total_duration :: "IntervalSet \<Rightarrow> real" where
  \<comment> \<open>\<^verbatim>\<open>np.sum(time_support.values[:, 1] - time_support.values[:, 0])\<close>\<close>
  "total_duration ep = sum_list (map (\<lambda>(s, e). e - s) ep)"

definition format_timestamps :: "real list \<Rightarrow> string \<Rightarrow> error + real list" where
  \<comment> \<open>Modelled from the spec: \<open>format_timestamps\<close>, which is missing: the factor table
      \<open>{"s": 1, "ms": 1e-3, "us": 1e-6}\<close> and an error for any other unit. The rounding
      "to a fixed sub-unit precision" belongs to the floating-point representation (the
      spec gives no precision) and is the identity on the exact values used here.\<close>
  "format_timestamps t units =
     (if units = ''s'' then Inr t
      else if units = ''ms'' then Inr (map (\<lambda>x. x * (1 / 1000)) t)
      else if units = ''us'' then Inr (map (\<lambda>x. x * (1 / 1000000)) t)
      else Inl (ValueError ''unrecognized time units''))"

definition sort_timestamps :: "real list \<Rightarrow> real list" where
  \<comment> \<open>Modelled from the spec: \<open>sort_timestamps\<close>, which is missing: "stable ascending sort;
      exact duplicate timestamps are collapsed to one".\<close>
  "sort_timestamps t = remdups_adj (sort t)"

definition in_intervals :: "real \<Rightarrow> real list \<Rightarrow> real list \<Rightarrow> bool" where
  \<comment> \<open>Boundary-inclusive membership in some interval \<open>[starts[k], ends[k]]\<close>.\<close>
  "in_intervals x ss es = list_ex (\<lambda>(s, e). s \<le> x \<and> x \<le> e) (zip ss es)"

text \<open>
  A numpy array is one- or two-dimensional here (scalar series, multi-column series);
  a two-dimensional array is the list of its rows. An argument that may be a number or
  an array is a \<open>pyarg\<close>.
\<close>

datatype ndarray = A1 "real list" | A2 "real list list"

datatype pyarg = Num real | Arr ndarray


fun shape0 :: "ndarray \<Rightarrow> nat" where
  "shape0 (A1 xs) = length xs"
| "shape0 (A2 rows) = length rows"

fun flatten :: "ndarray \<Rightarrow> real list" where
  "flatten (A1 xs) = xs"
| "flatten (A2 rows) = concat rows"

fun empty_like :: "ndarray \<Rightarrow> ndarray" where
  \<comment> \<open>\<open>np.empty_like\<close>: the shape of the argument, contents uninitialised. Zeros stand for
      the contents; nothing below reads them.\<close>
  "empty_like (A1 xs) = A1 (map (\<lambda>_. 0) xs)"
| "empty_like (A2 rows) = A2 (map (map (\<lambda>_. 0)) rows)"

fun column_vector :: "ndarray \<Rightarrow> ndarray" where
  \<comment> \<open>\<^verbatim>\<open>if len(d.shape) == 1: d = d[:, None]\<close>\<close>
  "column_vector (A1 xs) = A2 (map (\<lambda>x. [x]) xs)"
| "column_vector (A2 rows) = A2 rows"


definition keep_pairs :: "real list \<Rightarrow> 'a list \<Rightarrow> real list \<Rightarrow> real list \<Rightarrow> (real \<times> 'a) list" where
  "keep_pairs t d ss es = filter (\<lambda>(x, v). in_intervals x ss es) (zip t d)"

fun jitrestrict :: "real list \<Rightarrow> ndarray \<Rightarrow> real list \<Rightarrow> real list \<Rightarrow> real list \<times> ndarray" where
  \<comment> \<open>Modelled from the spec: \<open>jitrestrict\<close>, which is missing: "emit only \<open>(time, data)\<close>
      pairs whose time lies within any interval of the supplied set (boundary-inclusive)".\<close>
  "jitrestrict t (A1 xs) ss es =
     (map fst (keep_pairs t xs ss es), A1 (map snd (keep_pairs t xs ss es)))"
| "jitrestrict t (A2 rows) ss es =
     (map fst (keep_pairs t rows ss es), A2 (map snd (keep_pairs t rows ss es)))"

definition jittsrestrict :: "real list \<Rightarrow> real list \<Rightarrow> real list \<Rightarrow> real list" where
  \<comment> \<open>Modelled from the spec: \<open>jittsrestrict\<close>, which is missing: the same restriction for
      timestamps without data.\<close>
  "jittsrestrict t ss es = filter (\<lambda>x. in_intervals x ss es) t"

section \<open>\<open>core/time_series.py\<close>: the containers\<close>

text \<open>
  \<open>Tsd\<close>, \<open>TsdFrame\<close> and \<open>Ts\<close> objects carry the same attributes; \<open>nap_class\<close> is the
  name of the object's class and \<open>values_of\<close> is the attribute \<open>values\<close>. The column
  labels of a \<open>TsdFrame\<close> and the \<open>dtype\<close> attribute are carried along unchanged by the
  code and are left out.
\<close>

record container =
  index :: "real list"
  values_of :: ndarray
  time_support :: IntervalSet
  rate :: npfloat
  nap_class :: string

text \<open>
  The statements that \<open>Tsd.__init__\<close> (lines 117 to 151) and \<open>TsdFrame.__init__\<close> (lines
  934 to 969) share word for word: flatten, format, sort, then either restrict to the
  given support or derive the bounding support, and compute the rate; an empty time
  array gets the empty support and the rate \<open>0.0\<close>. At this point \<open>d\<close> is never
  \<open>None\<close> in either constructor, but the test and its other branch are kept.
\<close>

definition init_body :: "string \<Rightarrow> ndarray \<Rightarrow> ndarray option \<Rightarrow> string \<Rightarrow> IntervalSet option \<Rightarrow> error + container" where
  "init_body cls t d time_units time_support_arg =
     (case format_timestamps (flatten t) time_units of
        Inl e \<Rightarrow> Inl e
      | Inr t1 \<Rightarrow>
         let t2 = sort_timestamps t1 in
         if length t2 \<noteq> 0 then
           (case time_support_arg of
              Some ts \<Rightarrow>
                (case d of
                   Some dd \<Rightarrow>
                     let (t3, d3) = jitrestrict t2 dd (start_values ts) (end_values ts)
                     in Inr \<lparr>index = t3, values_of = d3, time_support = ts,
                             rate = np_div (real (length t3)) (total_duration ts),
                             nap_class = cls\<rparr>
                 | None \<Rightarrow>
                     let t3 = jittsrestrict t2 (start_values ts) (end_values ts)
                     in Inr \<lparr>index = t3, values_of = A1 [], time_support = ts,
                             rate = np_div (real (length t3)) (total_duration ts),
                             nap_class = cls\<rparr>)
            | None \<Rightarrow>
                (case IntervalSet_init [hd t2] [last t2] of
                   Inl e \<Rightarrow> Inl e
                 | Inr ts \<Rightarrow>
                     Inr \<lparr>index = t2, values_of = (case d of Some dd \<Rightarrow> dd | None \<Rightarrow> A1 []),
                          time_support = ts,
                          rate = np_div (real (length t2)) (total_duration ts),
                          nap_class = cls\<rparr>))
         else
           Inr \<lparr>index = [], values_of = A1 [], time_support = IntervalSet_empty,
                rate = Fin 0, nap_class = cls\<rparr>)"

text \<open>
  \<open>Tsd.__init__\<close>. \<open>cls\<close> is the class of the object under construction (\<open>Tsd\<close>, or
  \<open>Ts\<close> when called through \<open>Ts.__init__\<close>). A number for \<open>t\<close> or \<open>d\<close> becomes an array
  of one element; a \<open>d\<close> that is not an array becomes \<open>np.empty_like(t)\<close>. (A pandas
  Series for \<open>t\<close> is not modelled.)
\<close>

definition Tsd_init :: "string \<Rightarrow> pyarg \<Rightarrow> pyarg option \<Rightarrow> string \<Rightarrow> IntervalSet option \<Rightarrow> error + container" where
  "Tsd_init cls t d time_units time_support_arg =
     (let t0 = (case t of Num x \<Rightarrow> A1 [x] | Arr a \<Rightarrow> a);
          d0 = (case d of Some (Num y) \<Rightarrow> Some (A1 [y]) | Some (Arr a) \<Rightarrow> Some a | None \<Rightarrow> None);
          d1 = (case d0 of Some a \<Rightarrow> a | None \<Rightarrow> empty_like t0)
      in init_body cls t0 (Some d1) time_units time_support_arg)"

definition Tsd :: "pyarg \<Rightarrow> pyarg option \<Rightarrow> string \<Rightarrow> IntervalSet option \<Rightarrow> error + container" where
  "Tsd = Tsd_init ''Tsd''"


text \<open>
  \<open>TsdFrame.__init__\<close> for an array \<open>t\<close> and an array or missing \<open>d\<close> (a pandas
  DataFrame for \<open>t\<close> and a scalar \<open>d\<close> are not modelled).
\<close>

definition TsdFrame :: "real list \<Rightarrow> ndarray option \<Rightarrow> string \<Rightarrow> IntervalSet option \<Rightarrow> error + container" where
  "TsdFrame t d time_units time_support_arg =
     (case d of
        None \<Rightarrow> Inl (RuntimeError ''Missing argument d when initializing TsdFrame'')
      | Some dd \<Rightarrow> init_body ''TsdFrame'' (A1 t) (Some (column_vector dd)) time_units time_support_arg)"

text \<open>\<open>Tsd.restrict\<close> (inherited unchanged by \<open>Ts\<close>) and \<open>TsdFrame.restrict\<close>.\<close>

definition Tsd_restrict :: "container \<Rightarrow> IntervalSet \<Rightarrow> error + container" where
  "Tsd_restrict self ep =
     (let (t, d) = jitrestrict (index self) (values_of self) (start_values ep) (end_values ep)
      in Tsd (Arr (A1 t)) (Some (Arr d)) ''s'' (Some ep))"

definition TsdFrame_restrict :: "container \<Rightarrow> IntervalSet \<Rightarrow> error + container" where
  "TsdFrame_restrict self iset =
     (let (t, d) = jitrestrict (index self) (values_of self) (start_values iset) (end_values iset)
      in TsdFrame t (Some d) ''s'' (Some iset))"

text \<open>
  The predicate of the rate invariant: the rate is the length of the time index divided
  (by numpy) by the total duration of the time support. \<open>arg_times\<close> is the time array
  a constructor receives.
\<close>

definition rate_consistent :: "container \<Rightarrow> bool" where
  "rate_consistent r \<longleftrightarrow>
     rate r = np_div (real (length (index r))) (total_duration (time_support r))"

fun arg_times :: "pyarg \<Rightarrow> real list" where
  "arg_times (Num x) = [x]"
| "arg_times (Arr a) = flatten a"

subsection \<open>Element access\<close>

text \<open>
  The keys of \<open>__getitem__\<close>: an integer, a slice \<open>start:stop:step\<close> (each part optional),
  an array of integers, or a boolean mask. numpy raises IndexError for an integer out
  of range and for a mask of the wrong length, and ValueError for a slice step of 0;
  a negative integer counts from the end. A slice selects the positions Python's
  \<open>slice.indices\<close> gives.
\<close>

datatype key =
    KInt int
  | KSlice "int option" "int option" "int option"
  | KArray "int list"
  | KMask "bool list"

definition norm_index :: "nat \<Rightarrow> int \<Rightarrow> error + nat" where
  "norm_index n i =
     (let j = (if i < 0 then int n + i else i)
      in if 0 \<le> j \<and> j < int n then Inr (nat j) else Inl IndexError)"

definition adjust_bound :: "int \<Rightarrow> int \<Rightarrow> int \<Rightarrow> int" where
  \<comment> \<open>The clipping of a given slice bound \<open>v\<close> for a sequence of length \<open>n\<close>.\<close>
  "adjust_bound n step v =
     (if v < 0 then (if v + n < 0 then (if step < 0 then - 1 else 0) else v + n)
      else if n \<le> v then (if step < 0 then n - 1 else n)
      else v)"

definition slice_positions :: "nat \<Rightarrow> int option \<Rightarrow> int option \<Rightarrow> int option \<Rightarrow> error + nat list" where
  "slice_positions len a b c =
     (let step = (case c of None \<Rightarrow> 1 | Some s \<Rightarrow> s); n = int len in
      if step = 0 then Inl (ValueError ''slice step cannot be zero'')
      else
        let start = (case a of None \<Rightarrow> (if step < 0 then n - 1 else 0)
                             | Some v \<Rightarrow> adjust_bound n step v);
            stop = (case b of None \<Rightarrow> (if step < 0 then - 1 else n)
                            | Some v \<Rightarrow> adjust_bound n step v);
            cnt = (if step < 0
                   then (if stop < start then (start - stop - 1) div (- step) + 1 else 0)
                   else (if start < stop then (stop - start - 1) div step + 1 else 0))
        in Inr (map (\<lambda>k. nat (start + int k * step)) [0..<nat cnt]))"

fun sequence_sum :: "('e + 'a) list \<Rightarrow> 'e + 'a list" where
  \<comment> \<open>The results of a loop that stops at the first error.\<close>
  "sequence_sum [] = Inr []"
| "sequence_sum (x # xs) =
     (case x of Inl e \<Rightarrow> Inl e
      | Inr v \<Rightarrow> (case sequence_sum xs of Inl e \<Rightarrow> Inl e | Inr vs \<Rightarrow> Inr (v # vs)))"

fun key_positions :: "nat \<Rightarrow> key \<Rightarrow> error + nat list" where
  \<comment> \<open>The positions along the first axis that a key other than an integer selects.\<close>
  "key_positions n (KInt i) = (case norm_index n i of Inl e \<Rightarrow> Inl e | Inr j \<Rightarrow> Inr [j])"
| "key_positions n (KSlice a b c) = slice_positions n a b c"
| "key_positions n (KArray is) = sequence_sum (map (norm_index n) is)"
| "key_positions n (KMask bs) =
     (if length bs \<noteq> n then Inl IndexError else Inr (filter (\<lambda>i. bs ! i) [0..<n]))"

definition take_rows :: "ndarray \<Rightarrow> nat list \<Rightarrow> ndarray" where
  "take_rows a ps = (case a of A1 xs \<Rightarrow> A1 (map ((!) xs) ps) | A2 rows \<Rightarrow> A2 (map ((!) rows) ps))"

definition np_getitem :: "ndarray \<Rightarrow> key \<Rightarrow> error + pyarg" where
  \<comment> \<open>\<^verbatim>\<open>a.__getitem__(key)\<close>: an integer key removes the first axis, any other key keeps it.\<close>
  "np_getitem a k =
     (case k of
        KInt i \<Rightarrow>
          (case norm_index (shape0 a) i of
             Inl e \<Rightarrow> Inl e
           | Inr j \<Rightarrow> Inr (case a of A1 xs \<Rightarrow> Num (xs ! j) | A2 rows \<Rightarrow> Arr (A1 (rows ! j))))
      | _ \<Rightarrow>
          (case key_positions (shape0 a) k of
             Inl e \<Rightarrow> Inl e
           | Inr ps \<Rightarrow> Inr (Arr (take_rows a ps))))"





subsection \<open>Thresholding\<close>



definition method_error :: "string \<Rightarrow> error" where
  "method_error method = ValueError (''Method '' @ method @ '' for thresholding is not accepted.'')"


fun is_ValueError :: "error \<Rightarrow> bool" where
  "is_ValueError (ValueError m) = True"
| "is_ValueError e = False"


section \<open>process/correlograms.py: the validation of the arguments\<close>

text \<open>
  The classes of the values a caller can pass, as far as \<open>isinstance\<close> tells them apart.
  \<open>bool\<close> is a subclass of \<open>int\<close>, so a boolean is a \<open>Number\<close>; \<open>Ts\<close> is a subclass of
  \<open>Tsd\<close>.
\<close>

datatype pyobj =
    TsGroupObj
  | TsObj
  | TsdObj
  | TsdFrameObj
  | IntervalSetObj
  | IntObj int
  | FloatObj real
  | BoolObj bool
  | StrObj string
  | NoneObj
  | ListObj "pyobj list"
  | TupleObj "pyobj list"

fun is_TsGroup :: "pyobj \<Rightarrow> bool" where
  "is_TsGroup TsGroupObj = True"
| "is_TsGroup v = False"

fun is_Number :: "pyobj \<Rightarrow> bool" where
  "is_Number (IntObj i) = True"
| "is_Number (FloatObj x) = True"
| "is_Number (BoolObj b) = True"
| "is_Number v = False"

fun is_IntervalSet :: "pyobj \<Rightarrow> bool" where
  "is_IntervalSet IntervalSetObj = True"
| "is_IntervalSet v = False"

fun is_bool :: "pyobj \<Rightarrow> bool" where
  "is_bool (BoolObj b) = True"
| "is_bool v = False"

fun is_str :: "pyobj \<Rightarrow> bool" where
  "is_str (StrObj s) = True"
| "is_str v = False"

fun is_Ts_or_Tsd :: "pyobj \<Rightarrow> bool" where
  "is_Ts_or_Tsd TsObj = True"
| "is_Ts_or_Tsd TsdObj = True"
| "is_Ts_or_Tsd v = False"

fun tuple_or_list :: "pyobj \<Rightarrow> pyobj list option" where
  \<comment> \<open>\<^verbatim>\<open>isinstance(v, (tuple, list))\<close>, with the elements.\<close>
  "tuple_or_list (ListObj vs) = Some vs"
| "tuple_or_list (TupleObj vs) = Some vs"
| "tuple_or_list v = None"

text \<open>
  \<^verbatim>\<open>sig.bind_partial(*args, **kwargs).arguments\<close>: the positional arguments are bound to
  the parameters in order and the keyword arguments by name. Too many positional
  arguments, an unknown keyword and a parameter given twice raise TypeError; a missing
  parameter is no error (that is what \<open>bind_partial\<close> is for), and the defaults are not
  filled in.
\<close>

definition bind_partial :: "string list \<Rightarrow> pyobj list \<Rightarrow> (string \<times> pyobj) list \<Rightarrow> error + (string \<times> pyobj) list" where
  "bind_partial params args kwargs =
     (if length params < length args then Inl (TypeError ''too many positional arguments'')
      else
        let bound = zip params args in
        (case find (\<lambda>(k, v). k \<notin> set params) kwargs of
           Some (k, v) \<Rightarrow> Inl (TypeError (''got an unexpected keyword argument '' @ k))
         | None \<Rightarrow>
             (case find (\<lambda>(k, v). k \<in> set (map fst bound)) kwargs of
                Some (k, v) \<Rightarrow> Inl (TypeError (''multiple values for argument '' @ k))
              | None \<Rightarrow> Inr (bound @ kwargs))))"

definition group_message :: string where
  "group_message = ''Invalid type. Parameter group must be of type TsGroup''"

definition check_group :: "string \<Rightarrow> pyobj \<Rightarrow> error option" where
  \<comment> \<open>The first \<open>if\<close>/\<open>else\<close> of the wrapper, on the value bound to \<open>group\<close>.\<close>
  "check_group name g =
     (if name = ''compute_crosscorrelogram'' \<and> tuple_or_list g \<noteq> None then
        (if \<not> list_all is_TsGroup (the (tuple_or_list g)) \<or> length (the (tuple_or_list g)) \<noteq> 2
         then Some (TypeError (group_message @ '' or a tuple/list of (TsGroup, TsGroup).''))
         else None)
      else
        (if \<not> is_TsGroup g then
           Some (TypeError (if name = ''compute_crosscorrelogram''
                            then group_message @ '' or a tuple/list of (TsGroup, TsGroup).''
                            else group_message))
         else None))"

definition parameters_type :: "(string \<times> (pyobj \<Rightarrow> bool) \<times> string) list" where
  \<comment> \<open>Each parameter with its \<open>isinstance\<close> test and the text the type prints as.\<close>
  "parameters_type =
     [(''binsize'', is_Number, ''<class 'numbers.Number'>''),
      (''windowsize'', is_Number, ''<class 'numbers.Number'>''),
      (''ep'', is_IntervalSet, ''<class 'pynapple.core.interval_set.IntervalSet'>''),
      (''norm'', is_bool, ''<class 'bool'>''),
      (''time_units'', is_str, ''<class 'str'>''),
      (''reverse'', is_bool, ''<class 'bool'>''),
      (''event'', is_Ts_or_Tsd,
         ''(<class 'pynapple.core.time_series.Ts'>, <class 'pynapple.core.time_series.Tsd'>)'')]"

fun check_parameters ::
  "(string \<times> (pyobj \<Rightarrow> bool) \<times> string) list \<Rightarrow> (string \<times> pyobj) list \<Rightarrow> error option" where
  \<comment> \<open>\<^verbatim>\<open>for param, param_type in parameters_type.items(): ...\<close>\<close>
  "check_parameters [] kwargs = None"
| "check_parameters ((param, param_type, shown) # rest) kwargs =
     (case map_of kwargs param of
        Some v \<Rightarrow>
          if \<not> param_type v
          then Some (TypeError (''Invalid type. Parameter '' @ param @ '' must be of type ''
                                 @ shown @ ''.''))
          else check_parameters rest kwargs
      | None \<Rightarrow> check_parameters rest kwargs)"

text \<open>
  The wrapper. \<open>name\<close> and \<open>params\<close> are the name and the parameter names of the
  wrapped function, \<open>func\<close> is its body, called on the bound arguments. Reading
  \<^verbatim>\<open>kwargs["group"]\<close> raises KeyError when \<open>group\<close> was not passed.
\<close>

definition validate_correlograms_inputs ::
  "string \<Rightarrow> string list \<Rightarrow> ((string \<times> pyobj) list \<Rightarrow> error + 'r) \<Rightarrow> pyobj list \<Rightarrow> (string \<times> pyobj) list \<Rightarrow> error + 'r" where
  "validate_correlograms_inputs name params func args kwargs0 =
     (case bind_partial params args kwargs0 of
        Inl e \<Rightarrow> Inl e
      | Inr kwargs \<Rightarrow>
          (case map_of kwargs ''group'' of
             None \<Rightarrow> Inl (KeyError ''group'')
           | Some g \<Rightarrow>
               (case check_group name g of
                  Some e \<Rightarrow> Inl e
                | None \<Rightarrow>
                    (case check_parameters parameters_type kwargs of
                       Some e \<Rightarrow> Inl e
                     | None \<Rightarrow> func kwargs))))"

definition autocorrelogram_params :: "string list" where
  "autocorrelogram_params = [''group'', ''binsize'', ''windowsize'', ''ep'', ''norm'', ''time_units'']"

definition crosscorrelogram_params :: "string list" where
  "crosscorrelogram_params =
     [''group'', ''binsize'', ''windowsize'', ''ep'', ''norm'', ''time_units'', ''reverse'']"

definition eventcorrelogram_params :: "string list" where
  "eventcorrelogram_params =
     [''group'', ''event'', ''binsize'', ''windowsize'', ''ep'', ''norm'', ''time_units'']"

definition correlogram_functions :: "(string \<times> string list) list" where
  "correlogram_functions =
     [(''compute_autocorrelogram'', autocorrelogram_params),
      (''compute_crosscorrelogram'', crosscorrelogram_params),
      (''compute_eventcorrelogram'', eventcorrelogram_params)]"

text \<open>
  The predicate of the claim about the validation: some bound argument has the wrong
  class. For \<open>group\<close> the right classes are \<open>TsGroup\<close> and, for
  \<open>compute_crosscorrelogram\<close> only, a tuple or list of exactly two \<open>TsGroup\<close>s.
\<close>

definition group_wrong :: "string \<Rightarrow> pyobj \<Rightarrow> bool" where
  "group_wrong name g \<longleftrightarrow>
     \<not> (is_TsGroup g \<or>
        (name = ''compute_crosscorrelogram'' \<and>
         (case tuple_or_list g of
            Some vs \<Rightarrow> length vs = 2 \<and> list_all is_TsGroup vs
          | None \<Rightarrow> False)))"

definition claimed_types :: "(string \<times> (pyobj \<Rightarrow> bool)) list" where
  "claimed_types =
     [(''binsize'', is_Number), (''windowsize'', is_Number), (''ep'', is_IntervalSet),
      (''norm'', is_bool), (''time_units'', is_str), (''event'', is_Ts_or_Tsd)]"

definition wrong_class :: "string \<Rightarrow> (string \<times> pyobj) list \<Rightarrow> bool" where
  "wrong_class name kwargs \<longleftrightarrow>
     (case map_of kwargs ''group'' of Some g \<Rightarrow> group_wrong name g | None \<Rightarrow> False)
     \<or> list_ex (\<lambda>(param, param_type).
          case map_of kwargs param of Some v \<Rightarrow> \<not> param_type v | None \<Rightarrow> False) claimed_types"

fun is_TypeError :: "error \<Rightarrow> bool" where
  "is_TypeError (TypeError m) = True"
| "is_TypeError e = False"

section \<open>\<open>core/metadata_class.py\<close>: the metadata of a group\<close>

text \<open>
  The class of the grouped container is not among the sources at hand, its metadata base
  class \<open>_MetadataBase\<close> is. A group \<open>grp\<close> is the list of its keys with their series (a
  dict keeps insertion order and has no duplicate key) together with its metadata frame
  \<open>_metadata\<close>. The index of that frame is the index of the group
  (\<^verbatim>\<open>self.metadata_index = self.index\<close>), so the frame is the list of its named columns,
  each with one value per key in the order of the keys (\<open>set_info\<close> refuses a column of
  another length). A value is a float or any other object.
\<close>

datatype meta_value = MFloat npfloat | MObject string

record 'k TsGroup =
  members :: "('k \<times> container) list"
  metadata :: "(string \<times> meta_value list) list"

definition group_keys :: "'k TsGroup \<Rightarrow> 'k list" where
  \<comment> \<open>\<^verbatim>\<open>group.keys()\<close>\<close>
  "group_keys grp = map fst (members grp)"

text \<open>
  The keys of \<open>get_info\<close> by the branch they take: a string or a list of strings
  (columns), a number (a row label), a slice (row positions), anything else. Keys that
  are arrays, or tuples with a column part, go to \<open>loc\<close> as well and are not modelled.
  The result is a column (a series over the keys), a frame of some rows and columns,
  or a row.
\<close>

datatype 'k info_key =
    Key_str string
  | Key_str_list "string list"
  | Key_label 'k
  | Key_slice "int option" "int option" "int option"
  | Key_other

datatype 'k info =
    Info_series "('k \<times> meta_value) list"
  | Info_frame "'k list" "(string \<times> meta_value list) list"
  | Info_row "(string \<times> meta_value) list"

definition cell :: "meta_value list \<Rightarrow> nat \<Rightarrow> meta_value" where
  \<comment> \<open>The value of a column at a row position; a missing value is not-a-number in pandas.\<close>
  "cell col p = (if p < length col then col ! p else MFloat NaN)"

definition get_info :: "'k TsGroup \<Rightarrow> 'k info_key \<Rightarrow> error + 'k info" where
  \<comment> \<open>\<open>_MetadataBase.get_info\<close>: \<^verbatim>\<open>self._metadata[key]\<close> raises KeyError for a column that
      does not exist, \<^verbatim>\<open>self._metadata.loc[key]\<close> for a label that does not exist.\<close>
  "get_info grp k =
     (case k of
        Key_str s \<Rightarrow>
          (case map_of (metadata grp) s of
             None \<Rightarrow> Inl (KeyError s)
           | Some col \<Rightarrow> Inr (Info_series (zip (group_keys grp) col)))
      | Key_str_list ss \<Rightarrow>
          (case find (\<lambda>s. map_of (metadata grp) s = None) ss of
             Some s \<Rightarrow> Inl (KeyError s)
           | None \<Rightarrow>
               Inr (Info_frame (group_keys grp)
                      (map (\<lambda>s. (s, case map_of (metadata grp) s of Some col \<Rightarrow> col | None \<Rightarrow> [])) ss)))
      | Key_label n \<Rightarrow>
          (case find (\<lambda>p. group_keys grp ! p = n) [0..<length (group_keys grp)] of
             None \<Rightarrow> Inl (KeyError ''label'')
           | Some p \<Rightarrow> Inr (Info_row (map (\<lambda>(s, col). (s, cell col p)) (metadata grp))))
      | Key_slice a b c \<Rightarrow>
          (case slice_positions (length (group_keys grp)) a b c of
             Inl e \<Rightarrow> Inl e
           | Inr ps \<Rightarrow>
               Inr (Info_frame (map ((!) (group_keys grp)) ps)
                      (map (\<lambda>(s, col). (s, map (cell col) ps)) (metadata grp))))
      | Key_other \<Rightarrow> Inl IndexError)"

section \<open>process/correlograms.py: \<open>compute_autocorrelogram\<close>\<close>

text \<open>
  The pandas objects are modelled by what the function does with them. A data frame is
  its index of row labels and its columns, each a key with one value per row.
  \<open>TsGroup.restrict\<close> is not among the sources: it is the parameter \<open>restrict_group\<close> of
  the model, with the result type of a method that may raise. \<open>norm_arg\<close> is the
  argument \<open>norm\<close>.
\<close>

type_synonym 'k group_restrict = "'k TsGroup \<Rightarrow> IntervalSet \<Rightarrow> error + 'k TsGroup"

definition rint :: "real \<Rightarrow> int" where
  \<comment> \<open>Rounding to the nearest integer, halves to the even neighbour, as numpy rounds.\<close>
  "rint x =
     (let f = \<lfloor>x\<rfloor>; r = x - of_int f
      in if r < 1 / 2 then f else if 1 / 2 < r then f + 1 else if even f then f else f + 1)"

definition np_round :: "real \<Rightarrow> nat \<Rightarrow> real" where
  \<comment> \<open>\<^verbatim>\<open>np.round(x, n)\<close> in exact arithmetic.\<close>
  "np_round x n = of_int (rint (x * 10 ^ n)) / 10 ^ n"

fun fl_div :: "npfloat \<Rightarrow> npfloat \<Rightarrow> npfloat" where
  \<comment> \<open>Division of floats that may be infinite or not a number (no signed zero).\<close>
  "fl_div (Fin a) (Fin b) = np_div a b"
| "fl_div NaN y = NaN"
| "fl_div x NaN = NaN"
| "fl_div (Fin a) PInf = Fin 0"
| "fl_div (Fin a) NInf = Fin 0"
| "fl_div PInf (Fin b) = (if b < 0 then NInf else PInf)"
| "fl_div NInf (Fin b) = (if b < 0 then PInf else NInf)"
| "fl_div PInf PInf = NaN"
| "fl_div PInf NInf = NaN"
| "fl_div NInf PInf = NaN"
| "fl_div NInf NInf = NaN"

record 'k dataframe =
  df_index :: "real list"
  df_columns :: "('k \<times> npfloat list) list"

definition from_dict :: "('k \<times> real list \<times> npfloat list) list \<Rightarrow> 'k dataframe" where
  \<comment> \<open>\<^verbatim>\<open>pd.DataFrame.from_dict\<close> on series that all carry the same index (here the rounded
      bin centres of one bin size and window): that index, one column per key.\<close>
  "from_dict series =
     \<lparr>df_index = (case series of [] \<Rightarrow> [] | (n, idx, dat) # rest \<Rightarrow> idx),
      df_columns = map (\<lambda>(n, idx, dat). (n, dat)) series\<rparr>"

definition div_column :: "('k \<times> meta_value) list \<Rightarrow> 'k \<times> npfloat list \<Rightarrow> error + ('k \<times> npfloat list)" where
  \<comment> \<open>One column of \<^verbatim>\<open>autocorrs / rates\<close>: divided by the value of the series under the
      same key; a key the series lacks gives not-a-number, a value that is not a float
      makes the division raise TypeError.\<close>
  "div_column rates nc =
     (case nc of (n, col) \<Rightarrow>
        (case map_of rates n of
           Some (MFloat r) \<Rightarrow> Inr (n, map (\<lambda>v. fl_div v r) col)
         | Some (MObject s) \<Rightarrow> Inl (TypeError ''unsupported operand type(s) for /'')
         | None \<Rightarrow> Inr (n, map (\<lambda>v. NaN) col)))"

definition df_div :: "'k dataframe \<Rightarrow> 'k info \<Rightarrow> error + 'k dataframe" where
  \<comment> \<open>\<^verbatim>\<open>autocorrs / newgroup.get_info("rate")\<close>. A string key gives a column; the other
      shapes of the result of \<open>get_info\<close> do not occur here.\<close>
  "df_div df info =
     (case info of
        Info_series rates \<Rightarrow>
          (case sequence_sum (map (div_column rates) (df_columns df)) of
             Inl e \<Rightarrow> Inl e
           | Inr cols \<Rightarrow> Inr (df\<lparr>df_columns := cols\<rparr>))
      | Info_frame ks cols \<Rightarrow> Inl (TypeError ''not a series'')
      | Info_row cells \<Rightarrow> Inl (TypeError ''not a series''))"

definition loc_set :: "'k dataframe \<Rightarrow> real \<Rightarrow> npfloat \<Rightarrow> 'k dataframe" where
  \<comment> \<open>\<^verbatim>\<open>df.loc[label] = v\<close>: every row carrying the label, in every column.\<close>
  "loc_set df label v =
     df\<lparr>df_columns :=
          map (\<lambda>(n, col). (n, map (\<lambda>i. if df_index df ! i = label then v else col ! i)
                                   [0..<length col]))
              (df_columns df)\<rparr>"

text \<open>
  \<open>compute_autocorrelogram\<close> on arguments that passed the validation, in two parts:
  lines 171 to 193, up to and including the normalisation, and lines 195 to 199, the
  zeroing of the rows labelled 0.
\<close>

definition autocorrelogram_normalized ::
  "'k group_restrict \<Rightarrow> 'k TsGroup \<Rightarrow> real \<Rightarrow> real \<Rightarrow> IntervalSet option \<Rightarrow> bool \<Rightarrow> string
     \<Rightarrow> error + 'k dataframe" where
  "autocorrelogram_normalized restrict_group grp binsize windowsize ep norm_arg time_units =
     (case (case ep of Some e \<Rightarrow> restrict_group grp e | None \<Rightarrow> Inr grp) of
        Inl e \<Rightarrow> Inl e
      | Inr newgroup \<Rightarrow>
         (case format_timestamps [binsize] time_units of
            Inl e \<Rightarrow> Inl e
          | Inr bs \<Rightarrow>
             (case format_timestamps [windowsize] time_units of
                Inl e \<Rightarrow> Inl e
              | Inr ws \<Rightarrow>
                 (case sequence_sum
                        (map (\<lambda>(n, c).
                           case cross_correlogram (index c) (index c) (hd bs) (hd ws) of
                             Inl e \<Rightarrow> Inl e
                           | Inr (auc, centres) \<Rightarrow> Inr (n, map (\<lambda>x. np_round x 6) centres, auc))
                         (members newgroup)) of
                    Inl e \<Rightarrow> Inl e
                  | Inr series \<Rightarrow>
                      let autocorrs = from_dict series
                      in if norm_arg then
                           (case get_info newgroup (Key_str ''rate'') of
                              Inl e \<Rightarrow> Inl e
                            | Inr rates \<Rightarrow> df_div autocorrs rates)
                         else Inr autocorrs))))"

definition compute_autocorrelogram ::
  "'k group_restrict \<Rightarrow> 'k TsGroup \<Rightarrow> real \<Rightarrow> real \<Rightarrow> IntervalSet option \<Rightarrow> bool \<Rightarrow> string
     \<Rightarrow> error + 'k dataframe" where
  "compute_autocorrelogram restrict_group grp binsize windowsize ep norm_arg time_units =
     (case autocorrelogram_normalized restrict_group grp binsize windowsize ep norm_arg
             time_units of
        Inl e \<Rightarrow> Inl e
      | Inr autocorrs \<Rightarrow>
          Inr (if 0 \<in> set (df_index autocorrs) then loc_set autocorrs 0 (Fin 0)
               else autocorrs))"

fun is_MFloat :: "meta_value \<Rightarrow> bool" where
  "is_MFloat (MFloat x) = True"
| "is_MFloat (MObject s) = False"

definition float_rates :: "'k TsGroup \<Rightarrow> bool" where
  \<comment> \<open>What the normalisation needs of the group: a metadata column \<open>rate\<close> of floats.\<close>
  "float_rates grp =
     (case get_info grp (Key_str ''rate'') of
        Inr (Info_series rates) \<Rightarrow> list_all (\<lambda>(n, v). is_MFloat v) rates
      | _ \<Rightarrow> False)"

section \<open>Properties of the cross-correlogram\<close>

lemma count_bin_miss: "\<not> x < rb \<Longrightarrow> count_bin [x] rb 0 0 = (0, 0)"
  by (subst count_bin.simps) simp

lemma count_bin_done: "count_bin [x] rb (Suc 0) k = (Suc 0, k)"
  by (subst count_bin.simps) simp

lemma count_bin_hit: "x < rb \<Longrightarrow> count_bin [x] rb 0 0 = (1, 1)"
  by (subst count_bin.simps) (simp add: count_bin_done)

text \<open>
  With a single target timestamp \<open>x\<close>: the bins that end at or before \<open>x\<close> leave the
  cursor and the counts alone.
\<close>

lemma bins_before:
  "0 \<le> b \<Longrightarrow> rb + real n * b \<le> x \<Longrightarrow>
   fold (bin_step [x] b) [a..<a + n] (rb, 0, C) = (rb + real n * b, 0, C)"
proof (induction n)
  case 0
  then show ?case by simp
next
  case (Suc n)
  have "real n * b \<le> real (Suc n) * b"
    using Suc.prems(1) by (simp add: algebra_simps)
  then have le: "rb + real n * b \<le> x"
    using Suc.prems(2) by linarith
  have nx: "\<not> x < rb + real n * b + b"
    using Suc.prems by (simp add: algebra_simps)
  show ?case
    using Suc.IH [OF Suc.prems(1) le] nx
    by (simp add: bin_step_def count_bin_miss algebra_simps)
qed

text \<open>Once the cursor has passed the only target timestamp, no bin counts anything.\<close>

lemma bins_after:
  "fold (bin_step [x] b) [a..<a + n] (rb, Suc 0, C) = (rb + real n * b, Suc 0, C)"
  by (induction n) (simp_all add: bin_step_def count_bin_done algebra_simps)

text \<open>The bin \<open>h\<close> whose half-open range holds \<open>x\<close> is the one that is incremented.\<close>

lemma bins_single:
  assumes b: "0 \<le> b" and lo: "rb + real h * b \<le> x" and hi: "x < rb + real h * b + b"
  shows "fold (bin_step [x] b) [0..<h + 1 + r] (rb, 0, C)
         = (rb + real (h + 1 + r) * b, Suc 0, C[h := C ! h + 1])"
proof -
  have "[0..<h + (1 + r)] = [0..<0 + h] @ [h..<h + (1 + r)]"
    using upt_add_eq_append [of 0 h "1 + r"] by simp
  moreover have "[h..<h + (1 + r)] = h # [h + 1..<(h + 1) + r]"
    using upt_conv_Cons [of h "h + (1 + r)"] by simp
  ultimately have split: "[0..<h + 1 + r] = [0..<0 + h] @ [h] @ [h + 1..<(h + 1) + r]"
    by (simp add: add.assoc)
  have one: "bin_step [x] b h (rb + real h * b, 0, C)
      = (rb + real h * b + b, Suc 0, C[h := C ! h + 1])"
    using hi by (simp add: bin_step_def count_bin_hit)
  have "fold (bin_step [x] b) [0..<h + 1 + r] (rb, 0, C)
      = fold (bin_step [x] b) [h + 1..<(h + 1) + r]
          (bin_step [x] b h (fold (bin_step [x] b) [0..<0 + h] (rb, 0, C)))"
    by (simp only: split fold_append fold_simps o_apply)
  also have "\<dots> = fold (bin_step [x] b) [h + 1..<(h + 1) + r]
      (rb + real h * b + b, Suc 0, C[h := C ! h + 1])"
    by (simp only: bins_before [OF b lo] one)
  also have "\<dots> = (rb + real h * b + b + real r * b, Suc 0, C[h := C ! h + 1])"
    by (rule bins_after)
  also have "rb + real h * b + b + real r * b = rb + real (h + 1 + r) * b"
    by (simp add: algebra_simps)
  finally show ?thesis .
qed

text \<open>
  C3. For reference timestamps \<open>[0]\<close> and target timestamps \<open>[1]\<close>, bin size 1 and
  window 100, \<open>_cross_correlogram\<close> returns a count array of length 201 whose entry
  at index 101 is exactly 1 after the scaling by \<open>1 / (n1 * binsize)\<close>; the centre of
  bin 101 is lag 1.
\<close>

theorem cross_correlogram_scenario_1:
  "\<exists>C B. cross_correlogram [0] [1] 1 100 = Inr (C, B) \<and> length C = 201 \<and> C ! 101 = Fin 1
      \<and> length B = 201 \<and> B ! 101 = 1"
proof -
  define Z where "Z = replicate 201 (0::real)"
  have lenZ: "length Z = 201" and Z101: "Z ! 101 = 0"
    by (simp_all add: Z_def)
  have nb: "\<lfloor>(100 * 2 / 1 :: real)\<rfloor> = 200" by simp
  have adv0: "advance_i2 [1] (- (201 / 2)) 0 = 0"
    by (subst advance_i2.simps) simp
  have adv: "retreat_i2 [1] (- (201 / 2)) 0 = 0"
    by (subst retreat_i2.simps) simp
  have n201: "(101::nat) + 1 + 99 = 201" by simp
  have bins: "fold (bin_step [1] 1) [0..<201] (- (201 / 2), 0, Z)
      = (201 / 2, Suc 0, Z[101 := 1])"
    using bins_single [of 1 "- (201 / 2)" 101 1 99 Z] unfolding n201
    by (simp add: Z101 del: upt_rec_numeral)
  have step: "ref_step [0] [1] 1 201 (201 / 2) 0 (0, Z) = (0, Z[101 := 1])"
    by (simp add: ref_step_def adv0 adv bins del: upt_rec_numeral)
  have "cross_correlogram [0] [1] 1 100 =
      Inr (map (\<lambda>c. np_div c (real (length [0::real]) * 1)) (Z[101 := 1]),
           map (\<lambda>j. - (201 / 2) + 1 / 2 + real j * 1) [0..<201])"
    unfolding cross_correlogram_def Let_def nb
    by (simp add: step Z_def [symmetric] del: upt_rec_numeral)
  moreover have "map (\<lambda>j. - (201 / 2) + 1 / 2 + real j * 1) [0..<201] ! 101 = (1::real)"
    by (simp del: upt_rec_numeral)
  ultimately show ?thesis
    by (simp add: np_div_def lenZ del: upt_rec_numeral)
qed

text \<open>
  Whenever the bin size is not zero and the (odd) number of bins is not negative, the
  function returns, and the bin centres are \<open>m + j * binsize\<close>.
\<close>

lemma cross_correlogram_returns:
  assumes b: "binsize \<noteq> 0"
    and n: "0 \<le> (if 2 * (\<lfloor>(windowsize * 2) / binsize\<rfloor> div 2) = \<lfloor>(windowsize * 2) / binsize\<rfloor>
                then \<lfloor>(windowsize * 2) / binsize\<rfloor> + 1 else \<lfloor>(windowsize * 2) / binsize\<rfloor>)"
      (is "0 \<le> ?n")
  shows "\<exists>C. cross_correlogram t1 t2 binsize windowsize =
           Inr (C, map (\<lambda>j. - ((real (nat ?n) / 2) * binsize) + binsize / 2 + real j * binsize)
                     [0..<nat ?n])"
  using b n by (simp add: cross_correlogram_def Let_def split_beta)

text \<open>
  The grid of bin centres: an odd number of them, one bin size apart, the middle one
  at 0.
\<close>

lemma bin_centres_grid:
  assumes pos: "0 < binsize" and win: "binsize \<le> windowsize"
  shows "\<exists>C B. cross_correlogram t1 t2 binsize windowsize = Inr (C, B)
     \<and> odd (length B)
     \<and> (\<forall>j. j + 1 < length B \<longrightarrow> B ! (j + 1) - B ! j = binsize)
     \<and> B ! ((length B - 1) div 2) = 0"
proof -
  define n0 where "n0 = \<lfloor>(windowsize * 2) / binsize\<rfloor>"
  define n1 where "n1 = (if 2 * (n0 div 2) = n0 then n0 + 1 else n0)"
  define nbins where "nbins = nat n1"
  define B where "B = map (\<lambda>j. - ((real nbins / 2) * binsize) + binsize / 2 + real j * binsize) [0..<nbins]"
  have "2 \<le> (windowsize * 2) / binsize"
    using pos win by (simp add: le_divide_eq)
  then have n0: "2 \<le> n0"
    unfolding n0_def by (simp add: le_floor_iff)
  have oddn1: "odd n1" and n1pos: "0 < n1"
    using n0 unfolding n1_def by presburger+
  have oddn: "odd nbins"
    using oddn1 n1pos unfolding nbins_def by (simp add: even_nat_iff)
  obtain C where ret: "cross_correlogram t1 t2 binsize windowsize = Inr (C, B)"
    using cross_correlogram_returns [of binsize windowsize t1 t2] pos n1pos
    unfolding B_def nbins_def n1_def n0_def by auto
  have len: "length B = nbins" by (simp add: B_def)
  have spaced: "\<forall>j. j + 1 < length B \<longrightarrow> B ! (j + 1) - B ! j = binsize"
    by (simp add: B_def algebra_simps)
  obtain k where k: "nbins = 2 * k + 1"
    using oddn by (auto elim: oddE)
  have "B ! ((length B - 1) div 2) = B ! k"
    by (simp add: len k)
  also have "\<dots> = - ((real nbins / 2) * binsize) + binsize / 2 + real k * binsize"
    unfolding B_def using k by (simp del: upt_Suc)
  also have "\<dots> = 0"
    by (simp add: k algebra_simps)
  finally have mid: "B ! ((length B - 1) div 2) = 0" .
  show ?thesis
    using ret oddn len spaced mid by auto
qed



section \<open>Properties of the containers\<close>

subsection \<open>The helpers\<close>

lemma format_timestamps_s [simp]: "format_timestamps t ''s'' = Inr t"
  by (simp add: format_timestamps_def)

lemma set_sort_timestamps [simp]: "set (sort_timestamps t) = set t"
  by (simp add: sort_timestamps_def)


lemma sort_timestamps_Nil [simp]: "sort_timestamps t = [] \<longleftrightarrow> t = []"
  by (metis set_sort_timestamps set_empty)

lemma length_sort_timestamps: "length (sort_timestamps t) \<le> length t"
  unfolding sort_timestamps_def
  by (metis length_sort remdups_adj_length)

lemma in_intervals_iff:
  "in_intervals x (start_values ep) (end_values ep) \<longleftrightarrow> (\<exists>(s, e) \<in> set ep. s \<le> x \<and> x \<le> e)"
  by (simp add: in_intervals_def start_values_def end_values_def list_ex_iff zip_map_fst_snd)

lemma in_intervals_empty [simp]: "\<not> in_intervals x (start_values IntervalSet_empty) (end_values IntervalSet_empty)"
  by (simp add: in_intervals_def start_values_def end_values_def IntervalSet_empty_def)

lemma keep_pairs_times: "(x, v) \<in> set (keep_pairs t d ss es) \<Longrightarrow> in_intervals x ss es"
  by (auto simp: keep_pairs_def)

lemma jitrestrict_inside:
  "x \<in> set (fst (jitrestrict t d ss es)) \<Longrightarrow> in_intervals x ss es"
  by (cases d) (auto dest: keep_pairs_times)

lemma jitrestrict_lengths:
  "shape0 (snd (jitrestrict t d ss es)) = length (fst (jitrestrict t d ss es))"
  by (cases d) simp_all

lemma keep_pairs_all:
  "\<forall>x \<in> set t. in_intervals x ss es \<Longrightarrow> length t \<le> length d \<Longrightarrow>
   map fst (keep_pairs t d ss es) = t"
proof -
  assume a: "\<forall>x \<in> set t. in_intervals x ss es" and l: "length t \<le> length d"
  have "filter (\<lambda>(x, v). in_intervals x ss es) (zip t d) = zip t d"
    using a by (auto simp: filter_id_conv dest: set_zip_leftD)
  then show ?thesis
    using l by (simp add: keep_pairs_def map_fst_zip_take)
qed

lemma jitrestrict_all:
  "\<forall>x \<in> set t. in_intervals x ss es \<Longrightarrow> length t \<le> shape0 d \<Longrightarrow>
   fst (jitrestrict t d ss es) = t"
  by (cases d) (simp_all add: keep_pairs_all)

lemma jitrestrict_empty_set:
  "jitrestrict t d (start_values IntervalSet_empty) (end_values IntervalSet_empty)
     = (case d of A1 xs \<Rightarrow> ([], A1 []) | A2 rows \<Rightarrow> ([], A2 []))"
  by (cases d) (simp_all add: keep_pairs_def in_intervals_def start_values_def end_values_def IntervalSet_empty_def)


lemma shape0_column_vector [simp]: "shape0 (column_vector d) = shape0 d"
  by (cases d) simp_all

lemma init_body_restricted:
  assumes inside: "\<forall>x \<in> set t. in_intervals x (start_values ep) (end_values ep)"
    and len: "length t \<le> shape0 d"
  shows "\<exists>r. init_body cls (A1 t) (Some d) ''s'' (Some ep) = Inr r
           \<and> nap_class r = cls \<and> index r = sort_timestamps t
           \<and> (t \<noteq> [] \<longrightarrow> time_support r = ep \<and> rate_consistent r)
           \<and> (t = [] \<longrightarrow> time_support r = IntervalSet_empty \<and> rate r = Fin 0)"
proof (cases "t = []")
  case True
  then show ?thesis
    by (simp add: init_body_def sort_timestamps_def)
next
  case False
  let ?t2 = "sort_timestamps t"
  have "\<forall>x \<in> set ?t2. in_intervals x (start_values ep) (end_values ep)"
    using inside by simp
  moreover have "length ?t2 \<le> shape0 d"
    using len length_sort_timestamps [of t] by linarith
  ultimately have keep: "fst (jitrestrict ?t2 d (start_values ep) (end_values ep)) = ?t2"
    by (rule jitrestrict_all)
  show ?thesis
    using False keep
    by (simp add: init_body_def Let_def split_beta rate_consistent_def)
qed

lemma Tsd_restrict_result:
  "\<exists>r. Tsd_restrict x ep = Inr r
      \<and> nap_class r = ''Tsd''
      \<and> set (index r) \<subseteq> {t. in_intervals t (start_values ep) (end_values ep)}
      \<and> (index r \<noteq> [] \<longrightarrow> time_support r = ep \<and> rate_consistent r)
      \<and> (index r = [] \<longrightarrow> time_support r = IntervalSet_empty \<and> rate r = Fin 0)"
proof -
  let ?j = "jitrestrict (index x) (values_of x) (start_values ep) (end_values ep)"
  have inside: "\<forall>t \<in> set (fst ?j). in_intervals t (start_values ep) (end_values ep)"
    by (auto dest: jitrestrict_inside)
  have len: "length (fst ?j) \<le> shape0 (snd ?j)"
    by (simp add: jitrestrict_lengths)
  have eq: "Tsd_restrict x ep = init_body ''Tsd'' (A1 (fst ?j)) (Some (snd ?j)) ''s'' (Some ep)"
    by (simp add: Tsd_restrict_def Tsd_def Tsd_init_def split_beta)
  show ?thesis
    using init_body_restricted [OF inside len, of "''Tsd''"] inside
    unfolding eq by auto
qed

lemma TsdFrame_restrict_result:
  "\<exists>r. TsdFrame_restrict x ep = Inr r
      \<and> nap_class r = ''TsdFrame''
      \<and> set (index r) \<subseteq> {t. in_intervals t (start_values ep) (end_values ep)}
      \<and> (index r \<noteq> [] \<longrightarrow> time_support r = ep \<and> rate_consistent r)
      \<and> (index r = [] \<longrightarrow> time_support r = IntervalSet_empty \<and> rate r = Fin 0)"
proof -
  let ?j = "jitrestrict (index x) (values_of x) (start_values ep) (end_values ep)"
  have inside: "\<forall>t \<in> set (fst ?j). in_intervals t (start_values ep) (end_values ep)"
    by (auto dest: jitrestrict_inside)
  have len: "length (fst ?j) \<le> shape0 (column_vector (snd ?j))"
    by (simp add: jitrestrict_lengths)
  have eq: "TsdFrame_restrict x ep
      = init_body ''TsdFrame'' (A1 (fst ?j)) (Some (column_vector (snd ?j))) ''s'' (Some ep)"
    by (simp add: TsdFrame_restrict_def TsdFrame_def split_beta)
  show ?thesis
    using init_body_restricted [OF inside len, of "''TsdFrame''"] inside
    unfolding eq by auto
qed


text \<open>
  C1 (as amended). \<open>restrict\<close> returns a new container. When at least one sample is
  retained, its time support is the interval set that was supplied; when none is
  retained, its time support is the empty interval set. Every retained time lies inside
  some interval of the supplied set, boundaries included.
\<close>

theorem restrict_support_and_times:
  "(\<exists>r. Tsd_restrict x ep = Inr r
      \<and> (index r \<noteq> [] \<longrightarrow> time_support r = ep)
      \<and> (index r = [] \<longrightarrow> time_support r = IntervalSet_empty)
      \<and> (\<forall>t \<in> set (index r). \<exists>(s, e) \<in> set ep. s \<le> t \<and> t \<le> e))
   \<and> (\<exists>r. TsdFrame_restrict y ep = Inr r
      \<and> (index r \<noteq> [] \<longrightarrow> time_support r = ep)
      \<and> (index r = [] \<longrightarrow> time_support r = IntervalSet_empty)
      \<and> (\<forall>t \<in> set (index r). \<exists>(s, e) \<in> set ep. s \<le> t \<and> t \<le> e))"
proof
  obtain r where "Tsd_restrict x ep = Inr r"
    and "set (index r) \<subseteq> {t. in_intervals t (start_values ep) (end_values ep)}"
    and "index r \<noteq> [] \<longrightarrow> time_support r = ep \<and> rate_consistent r"
    and "index r = [] \<longrightarrow> time_support r = IntervalSet_empty \<and> rate r = Fin 0"
    using Tsd_restrict_result [of x ep] by blast
  then show "\<exists>r. Tsd_restrict x ep = Inr r
      \<and> (index r \<noteq> [] \<longrightarrow> time_support r = ep)
      \<and> (index r = [] \<longrightarrow> time_support r = IntervalSet_empty)
      \<and> (\<forall>t \<in> set (index r). \<exists>(s, e) \<in> set ep. s \<le> t \<and> t \<le> e)"
    by (auto simp: in_intervals_iff)
next
  obtain r where "TsdFrame_restrict y ep = Inr r"
    and "set (index r) \<subseteq> {t. in_intervals t (start_values ep) (end_values ep)}"
    and "index r \<noteq> [] \<longrightarrow> time_support r = ep \<and> rate_consistent r"
    and "index r = [] \<longrightarrow> time_support r = IntervalSet_empty \<and> rate r = Fin 0"
    using TsdFrame_restrict_result [of y ep] by blast
  then show "\<exists>r. TsdFrame_restrict y ep = Inr r
      \<and> (index r \<noteq> [] \<longrightarrow> time_support r = ep)
      \<and> (index r = [] \<longrightarrow> time_support r = IntervalSet_empty)
      \<and> (\<forall>t \<in> set (index r). \<exists>(s, e) \<in> set ep. s \<le> t \<and> t \<le> e)"
    by (auto simp: in_intervals_iff)
qed



text \<open>
  The claim as stated asks for the supplied set as the new support in every case. A
  series with samples at 5 and 6 restricted to \<open>[0, 1]\<close> keeps nothing, the constructor
  takes the branch for an empty time array, and the support is the empty set.
\<close>

theorem restrict_support_counterexample:
  "Tsd (Arr (A1 [5, 6])) (Some (Arr (A1 [1, 2]))) ''s'' None
     = Inr \<lparr>index = [5, 6], values_of = A1 [1, 2], time_support = [(5, 6)],
            rate = Fin 2, nap_class = ''Tsd''\<rparr>
   \<and> Tsd_restrict \<lparr>index = [5, 6], values_of = A1 [1, 2], time_support = [(5, 6)],
            rate = Fin 2, nap_class = ''Tsd''\<rparr> [(0, 1)]
     = Inr \<lparr>index = [], values_of = A1 [], time_support = [],
            rate = Fin 0, nap_class = ''Tsd''\<rparr>
   \<and> ([] :: IntervalSet) \<noteq> [(0, 1)]"
  by (simp add: Tsd_restrict_def Tsd_def Tsd_init_def init_body_def sort_timestamps_def
      keep_pairs_def in_intervals_def start_values_def end_values_def IntervalSet_empty_def
      IntervalSet_init_def total_duration_def np_div_def)

theorem restrict_support_and_times_witness:
  "Tsd_restrict \<lparr>index = [5, 6], values_of = A1 [1, 2], time_support = [(5, 6)],
            rate = Fin 2, nap_class = ''Tsd''\<rparr> [(0, 5)]
     = Inr \<lparr>index = [5], values_of = A1 [1], time_support = [(0, 5)],
            rate = Fin (1 / 5), nap_class = ''Tsd''\<rparr>
   \<and> TsdFrame_restrict \<lparr>index = [5, 6], values_of = A2 [[1], [2]], time_support = [(5, 6)],
            rate = Fin 2, nap_class = ''TsdFrame''\<rparr> [(0, 5)]
     = Inr \<lparr>index = [5], values_of = A2 [[1]], time_support = [(0, 5)],
            rate = Fin (1 / 5), nap_class = ''TsdFrame''\<rparr>
   \<and> [5 :: real] \<noteq> [] \<and> (5 :: real) \<in> set [5] \<and> (0 :: real) \<le> 5 \<and> (5 :: real) \<le> 5"
  using restrict_support_and_times
    [of "\<lparr>index = [5, 6], values_of = A1 [1, 2], time_support = [(5, 6)],
            rate = Fin 2, nap_class = ''Tsd''\<rparr>" "[(0, 5)]"
        "\<lparr>index = [5, 6], values_of = A2 [[1], [2]], time_support = [(5, 6)],
            rate = Fin 2, nap_class = ''TsdFrame''\<rparr>"]
  by (simp add: Tsd_restrict_def TsdFrame_restrict_def Tsd_def TsdFrame_def Tsd_init_def
      init_body_def sort_timestamps_def keep_pairs_def in_intervals_def start_values_def
      end_values_def IntervalSet_empty_def total_duration_def np_div_def)

subsection \<open>The rate\<close>

lemma format_timestamps_Nil:
  "format_timestamps t u = Inr t1 \<Longrightarrow> t1 = [] \<longleftrightarrow> t = []"
  by (auto simp: format_timestamps_def split: if_splits)

lemma init_body_rate:
  assumes "init_body cls t d u ts = Inr r"
  shows "if flatten t = [] then rate r = Fin 0 else rate_consistent r"
proof -
  obtain t1 where f: "format_timestamps (flatten t) u = Inr t1"
    using assms by (auto simp: init_body_def split: sum.splits)
  have e: "sort_timestamps t1 = [] \<longleftrightarrow> flatten t = []"
    using format_timestamps_Nil [OF f] by simp
  show ?thesis
    using assms f e
    by (auto simp: init_body_def Let_def split_beta rate_consistent_def
             split: if_splits option.splits sum.splits)
qed

lemma Tsd_init_rate:
  assumes "Tsd_init cls t d u ts = Inr r"
  shows "if arg_times t = [] then rate r = Fin 0 else rate_consistent r"
  using init_body_rate [of cls "case t of Num x \<Rightarrow> A1 [x] | Arr a \<Rightarrow> a" _ u ts r] assms
  by (cases t) (simp_all add: Tsd_init_def Let_def)

lemma TsdFrame_rate:
  assumes "TsdFrame tt dd u ts = Inr r"
  shows "if tt = [] then rate r = Fin 0 else rate_consistent r"
proof (cases dd)
  case None
  then show ?thesis
    using assms by (simp add: TsdFrame_def)
next
  case (Some a)
  then have "init_body ''TsdFrame'' (A1 tt) (Some (column_vector a)) u ts = Inr r"
    using assms by (simp add: TsdFrame_def)
  from init_body_rate [OF this] show ?thesis
    by simp
qed


text \<open>
  C2 (as amended). After every construction whose time array is not empty, and after
  every restriction that retains a sample, the rate is the length of the time index
  divided by the total duration of the time support (numpy's division: infinite when
  the duration is zero). When the time array is empty the rate is \<open>0.0\<close>.
\<close>

theorem rate_after_construction:
  "(Tsd_init cls t d u ts = Inr r1 \<longrightarrow>
      (if arg_times t = [] then rate r1 = Fin 0 else rate_consistent r1))
   \<and> (TsdFrame tt dd u' ts' = Inr r2 \<longrightarrow>
      (if tt = [] then rate r2 = Fin 0 else rate_consistent r2))
   \<and> (\<exists>r. Tsd_restrict x ep = Inr r
      \<and> (if index r = [] then rate r = Fin 0 else rate_consistent r))
   \<and> (\<exists>r. TsdFrame_restrict y ep' = Inr r
      \<and> (if index r = [] then rate r = Fin 0 else rate_consistent r))"
proof (intro conjI impI)
  show "if arg_times t = [] then rate r1 = Fin 0 else rate_consistent r1"
    if "Tsd_init cls t d u ts = Inr r1"
    using that by (rule Tsd_init_rate)
  show "if tt = [] then rate r2 = Fin 0 else rate_consistent r2"
    if "TsdFrame tt dd u' ts' = Inr r2"
    using that by (rule TsdFrame_rate)
  show "\<exists>r. Tsd_restrict x ep = Inr r
      \<and> (if index r = [] then rate r = Fin 0 else rate_consistent r)"
    using Tsd_restrict_result [of x ep] by auto
  show "\<exists>r. TsdFrame_restrict y ep' = Inr r
      \<and> (if index r = [] then rate r = Fin 0 else rate_consistent r)"
    using TsdFrame_restrict_result [of y ep'] by auto
qed


text \<open>
  The claim as stated asks for the quotient in every case. For an empty time array the
  quotient is zero over zero, which is not a number, and the constructor sets \<open>0.0\<close>.
\<close>

theorem rate_empty_counterexample:
  "Tsd (Arr (A1 [])) None ''s'' None
     = Inr \<lparr>index = [], values_of = A1 [], time_support = [],
            rate = Fin 0, nap_class = ''Tsd''\<rparr>
   \<and> \<not> rate_consistent \<lparr>index = [], values_of = A1 [], time_support = [],
            rate = Fin 0, nap_class = ''Tsd''\<rparr>"
  by (simp add: Tsd_def Tsd_init_def init_body_def sort_timestamps_def IntervalSet_empty_def
      rate_consistent_def total_duration_def np_div_def)

theorem rate_after_construction_witness:
  "Tsd_init ''Tsd'' (Arr (A1 [5, 6])) (Some (Arr (A1 [1, 2]))) ''s'' None
     = Inr \<lparr>index = [5, 6], values_of = A1 [1, 2], time_support = [(5, 6)],
            rate = Fin 2, nap_class = ''Tsd''\<rparr>
   \<and> arg_times (Arr (A1 [5, 6])) \<noteq> []
   \<and> rate_consistent \<lparr>index = [5, 6], values_of = A1 [1, 2], time_support = [(5, 6)],
            rate = Fin 2, nap_class = ''Tsd''\<rparr>
   \<and> TsdFrame [5, 6] (Some (A1 [1, 2])) ''s'' None
     = Inr \<lparr>index = [5, 6], values_of = A2 [[1], [2]], time_support = [(5, 6)],
            rate = Fin 2, nap_class = ''TsdFrame''\<rparr>
   \<and> [5, 6 :: real] \<noteq> []
   \<and> rate_consistent \<lparr>index = [5, 6], values_of = A2 [[1], [2]], time_support = [(5, 6)],
            rate = Fin 2, nap_class = ''TsdFrame''\<rparr>"
  using rate_after_construction
    [of "''Tsd''" "Arr (A1 [5, 6])" "Some (Arr (A1 [1, 2]))" "''s''" None
        "\<lparr>index = [5, 6], values_of = A1 [1, 2], time_support = [(5, 6)],
            rate = Fin 2, nap_class = ''Tsd''\<rparr>"
        "[5, 6]" "Some (A1 [1, 2])" "''s''" None
        "\<lparr>index = [5, 6], values_of = A2 [[1], [2]], time_support = [(5, 6)],
            rate = Fin 2, nap_class = ''TsdFrame''\<rparr>"]
  by (simp add: Tsd_init_def TsdFrame_def init_body_def sort_timestamps_def
      IntervalSet_init_def total_duration_def np_div_def)

subsection \<open>Restriction to the empty interval set\<close>

text \<open>
  C4. Restricting any container to the interval set with zero intervals does not raise:
  it returns a container of length 0 whose time support is the empty interval set and
  whose rate is \<open>0.0\<close>.
\<close>

theorem restrict_to_empty_set:
  "(\<exists>r. Tsd_restrict x IntervalSet_empty = Inr r
      \<and> length (index r) = 0 \<and> time_support r = IntervalSet_empty \<and> rate r = Fin 0)
   \<and> (\<exists>r. TsdFrame_restrict y IntervalSet_empty = Inr r
      \<and> length (index r) = 0 \<and> time_support r = IntervalSet_empty \<and> rate r = Fin 0)"
  using Tsd_restrict_result [of x IntervalSet_empty]
    TsdFrame_restrict_result [of y IntervalSet_empty]
  by auto

subsection \<open>Element access\<close>












lemma np_getitem_KInt_A2:
  "np_getitem (A2 rows) (KInt n) = Inr data \<Longrightarrow> \<exists>row. data = Arr (A1 row)"
  by (auto simp: np_getitem_def split: sum.splits)









section \<open>Properties of thresholding\<close>



lemma method_error_is_ValueError [simp]: "is_ValueError (method_error m)"
  by (simp add: method_error_def)

lemma is_ValueError_iff: "is_ValueError e \<longleftrightarrow> (\<exists>m. e = ValueError m)"
  by (cases e) simp_all






section \<open>Properties of the validation of the arguments\<close>

lemma check_group_TypeError:
  "check_group name g = Some e \<Longrightarrow> is_TypeError e"
  by (auto simp: check_group_def split: if_splits)

lemma check_group_wrong:
  "group_wrong name g \<Longrightarrow> \<exists>e. check_group name g = Some e"
  by (auto simp: check_group_def group_wrong_def split: option.splits)

lemma check_parameters_TypeError:
  "check_parameters tbl kwargs = Some e \<Longrightarrow> is_TypeError e"
  by (induction tbl kwargs rule: check_parameters.induct) (auto split: option.splits if_splits)

lemma check_parameters_wrong:
  "list_ex (\<lambda>(param, param_type, shown).
      case map_of kwargs param of Some v \<Rightarrow> \<not> param_type v | None \<Rightarrow> False) tbl
   \<Longrightarrow> \<exists>e. check_parameters tbl kwargs = Some e"
  by (induction tbl kwargs rule: check_parameters.induct) (auto split: option.splits)

lemma claimed_in_parameters_type:
  "list_ex (\<lambda>(param, param_type). Q param param_type) claimed_types
   \<Longrightarrow> list_ex (\<lambda>(param, param_type, shown). Q param param_type) parameters_type"
  by (auto simp: claimed_types_def parameters_type_def)

lemma bind_partial_TypeError:
  "bind_partial params args kwargs = Inl e \<Longrightarrow> is_TypeError e"
  by (auto simp: bind_partial_def Let_def split: if_splits option.splits)

text \<open>
  When \<open>group\<close> is among the bound arguments and some bound argument has the wrong
  class, the wrapper raises a TypeError, the same one whatever the wrapped body is:
  the body does not run.
\<close>

lemma validate_TypeError_when_group_passed:
  assumes b: "bind_partial params args kwargs0 = Inr kwargs"
    and g: "map_of kwargs ''group'' = Some v"
    and w: "wrong_class name kwargs"
  shows "\<exists>e. is_TypeError e \<and> (\<forall>func. validate_correlograms_inputs name params func args kwargs0 = Inl e)"
proof (cases "check_group name v")
  case (Some e)
  then show ?thesis
    using b g check_group_TypeError [OF Some]
    by (auto simp: validate_correlograms_inputs_def)
next
  case None
  then have "\<not> group_wrong name v"
    using check_group_wrong by fastforce
  then have "list_ex (\<lambda>(param, param_type).
      case map_of kwargs param of Some v \<Rightarrow> \<not> param_type v | None \<Rightarrow> False) claimed_types"
    using w g by (simp add: wrong_class_def)
  then have "list_ex (\<lambda>(param, param_type, shown).
      case map_of kwargs param of Some v \<Rightarrow> \<not> param_type v | None \<Rightarrow> False) parameters_type"
    by (rule claimed_in_parameters_type)
  then obtain e where e: "check_parameters parameters_type kwargs = Some e"
    using check_parameters_wrong by blast
  show ?thesis
    using b g None e check_parameters_TypeError [OF e]
    by (auto simp: validate_correlograms_inputs_def)
qed


text \<open>
  The calls of \<open>tests/test_correlograms.py\<close> give the errors the tests expect, and a
  well-typed call reaches the body.
\<close>

lemma validate_tests:
  "validate_correlograms_inputs ''compute_eventcorrelogram'' eventcorrelogram_params func []
      [(''group'', TsGroupObj), (''binsize'', StrObj ''a''), (''windowsize'', IntObj 10),
       (''ep'', IntervalSetObj), (''norm'', BoolObj True), (''time_units'', StrObj ''s'')]
     = Inl (TypeError ''Invalid type. Parameter binsize must be of type <class 'numbers.Number'>.'')"
  "validate_correlograms_inputs ''compute_crosscorrelogram'' crosscorrelogram_params func
      [TupleObj [TsGroupObj, ListObj [IntObj 1, IntObj 2, IntObj 3]], IntObj 1, IntObj 1] []
     = Inl (TypeError ''Invalid type. Parameter group must be of type TsGroup or a tuple/list of (TsGroup, TsGroup).'')"
  "validate_correlograms_inputs ''compute_eventcorrelogram'' eventcorrelogram_params func
      [TsGroupObj, ListObj [IntObj 1, IntObj 2, IntObj 3], IntObj 1, IntObj 1] []
     = Inl (TypeError ''Invalid type. Parameter event must be of type (<class 'pynapple.core.time_series.Ts'>, <class 'pynapple.core.time_series.Tsd'>).'')"
  "validate_correlograms_inputs ''compute_crosscorrelogram'' crosscorrelogram_params func
      [TupleObj [TsGroupObj, TsGroupObj], IntObj 1, IntObj 100] []
     = func [(''group'', TupleObj [TsGroupObj, TsGroupObj]), (''binsize'', IntObj 1),
             (''windowsize'', IntObj 100)]"
  by (simp_all add: validate_correlograms_inputs_def eventcorrelogram_params_def
      crosscorrelogram_params_def bind_partial_def check_group_def group_message_def
      parameters_type_def)

text \<open>
  C9 at the call \<^verbatim>\<open>compute_autocorrelogram(binsize="a", windowsize=1)\<close>: \<open>binsize\<close> has
  the wrong class, \<open>bind_partial\<close> accepts the call without \<open>group\<close>, and reading
  \<^verbatim>\<open>kwargs["group"]\<close> raises KeyError before any class is checked. The claim asks for a
  TypeError.
\<close>

theorem validate_group_missing_KeyError:
  "validate_correlograms_inputs ''compute_autocorrelogram'' autocorrelogram_params func []
      [(''binsize'', StrObj ''a''), (''windowsize'', IntObj 1)] = Inl (KeyError ''group'')
   \<and> wrong_class ''compute_autocorrelogram'' [(''binsize'', StrObj ''a''), (''windowsize'', IntObj 1)]
   \<and> \<not> is_TypeError (KeyError ''group'')"
  by (simp add: validate_correlograms_inputs_def autocorrelogram_params_def bind_partial_def
      wrong_class_def claimed_types_def)

section \<open>Properties of the autocorrelogram\<close>

lemma bin_step_length:
  "length (snd (snd (bin_step t2 b j st))) = length (snd (snd st))"
  by (cases st) (simp add: bin_step_def Let_def split_beta)

lemma fold_bin_step_length:
  "length (snd (snd (fold (bin_step t2 b) js st))) = length (snd (snd st))"
  by (induction js arbitrary: st) (simp_all add: bin_step_length)

lemma ref_step_length:
  "length (snd (ref_step t1 t2 b n w i st)) = length (snd st)"
  by (cases st) (simp add: ref_step_def Let_def split_beta fold_bin_step_length)

lemma fold_ref_step_length:
  "length (snd (fold (ref_step t1 t2 b n w) is st)) = length (snd st)"
  by (induction "is" arbitrary: st) (simp_all add: ref_step_length)

lemma cross_correlogram_lengths:
  "cross_correlogram t1 t2 b w = Inr (C, B) \<Longrightarrow> length C = length B"
  by (auto simp: cross_correlogram_def Let_def split_beta fold_ref_step_length split: if_splits)

lemma cross_correlogram_same_centres:
  "cross_correlogram t1 t2 b w = Inr (C, B) \<Longrightarrow> cross_correlogram t1' t2' b w = Inr (C', B')
   \<Longrightarrow> B' = B"
  by (auto simp: cross_correlogram_def Let_def split_beta split: if_splits)

lemma sequence_sum_map:
  "sequence_sum (map f xs) = Inr ys \<Longrightarrow> list_all2 (\<lambda>x y. f x = Inr y) xs ys"
  by (induction xs arbitrary: ys) (auto split: sum.splits)

lemma list_all2_right_witness:
  "list_all2 P xs ys \<Longrightarrow> y \<in> set ys \<Longrightarrow> \<exists>x \<in> set xs. P x y"
  by (induction xs ys rule: list_all2_induct) auto

lemma series_entries:
  assumes "sequence_sum (map (\<lambda>(n, c).
             case cross_correlogram (index c) (index c) b w of
               Inl e \<Rightarrow> Inl e
             | Inr (auc, centres) \<Rightarrow> Inr (n, map f centres, auc)) ng) = Inr series"
  shows "map fst series = map fst ng"
    and "y \<in> set series \<Longrightarrow>
           \<exists>t C B. cross_correlogram t t b w = Inr (C, B) \<and> snd y = (map f B, C)"
proof -
  let ?F = "\<lambda>(n, c). case cross_correlogram (index c) (index c) b w of
               Inl e \<Rightarrow> Inl e
             | Inr (auc, centres) \<Rightarrow> Inr (n, map f centres, auc)"
  have all2: "list_all2 (\<lambda>x y. ?F x = Inr y) ng series"
    using assms by (rule sequence_sum_map)
  then have "list_all2 (\<lambda>x y. fst y = fst x) ng series"
    by (rule list_all2_mono) (auto split: sum.splits)
  then show "map fst series = map fst ng"
    by (induction ng series rule: list_all2_induct) simp_all
  show "\<exists>t C B. cross_correlogram t t b w = Inr (C, B) \<and> snd y = (map f B, C)"
    if yin: "y \<in> set series"
  proof -
    from list_all2_right_witness [OF all2 yin]
    obtain x where xin: "x \<in> set ng" and fx: "?F x = Inr y" ..
    obtain n c where x: "x = (n, c)"
      by (cases x) auto
    show ?thesis
      using fx unfolding x by (fastforce split: sum.splits)
  qed
qed

lemma from_dict_shape:
  assumes ent: "\<And>y. y \<in> set series \<Longrightarrow>
           \<exists>t C B. cross_correlogram t t b w = Inr (C, B) \<and> snd y = (map f B, C)"
    and col: "(n, col) \<in> set (df_columns (from_dict series))"
  shows "length col = length (df_index (from_dict series))"
proof (cases series)
  case Nil
  then show ?thesis
    using col by (simp add: from_dict_def)
next
  case (Cons y0 rest)
  obtain t0 C0 B0 where y0: "cross_correlogram t0 t0 b w = Inr (C0, B0)" "snd y0 = (map f B0, C0)"
    using ent [of y0] Cons by auto
  have idx: "df_index (from_dict series) = map f B0"
    using Cons y0 by (cases y0) (simp add: from_dict_def)
  obtain y where y: "y \<in> set series" "snd (snd y) = col"
    using col by (auto simp: from_dict_def)
  obtain t C B where c: "cross_correlogram t t b w = Inr (C, B)" "snd y = (map f B, C)"
    using ent [OF y(1)] by auto
  have "B = B0"
    using cross_correlogram_same_centres [OF y0(1) c(1)] .
  moreover have "length C = length B"
    using c(1) by (rule cross_correlogram_lengths)
  ultimately show ?thesis
    using idx y(2) c(2) by simp
qed

lemma list_all2_same_keys:
  "list_all2 (\<lambda>x y. fst y = fst x) xs ys \<Longrightarrow> map fst ys = map fst xs"
  by (induction xs ys rule: list_all2_induct) simp_all

lemma div_column_shape:
  "div_column rates x = Inr y \<Longrightarrow> fst y = fst x \<and> length (snd y) = length (snd x)"
  by (cases x) (auto simp: div_column_def split: option.splits meta_value.splits)

lemma df_div_shape:
  assumes "df_div df info = Inr df'"
  shows "df_index df' = df_index df"
    and "map fst (df_columns df') = map fst (df_columns df)"
    and "(n, col) \<in> set (df_columns df') \<Longrightarrow>
           \<exists>col0. (n, col0) \<in> set (df_columns df) \<and> length col = length col0"
proof -
  obtain rates cols where info: "info = Info_series rates"
    and cols: "sequence_sum (map (div_column rates) (df_columns df)) = Inr cols"
    and df': "df' = df\<lparr>df_columns := cols\<rparr>"
    using assms by (auto simp: df_div_def split: info.splits sum.splits)
  have all2: "list_all2 (\<lambda>x y. div_column rates x = Inr y) (df_columns df) cols"
    using cols by (rule sequence_sum_map)
  show "df_index df' = df_index df"
    by (simp add: df')
  have "list_all2 (\<lambda>x y. fst y = fst x) (df_columns df) cols"
    using all2 by (rule list_all2_mono) (simp add: div_column_shape)
  then have "map fst cols = map fst (df_columns df)"
    by (rule list_all2_same_keys)
  then show "map fst (df_columns df') = map fst (df_columns df)"
    by (simp add: df')
  show "\<exists>col0. (n, col0) \<in> set (df_columns df) \<and> length col = length col0"
    if c: "(n, col) \<in> set (df_columns df')"
  proof -
    have "(n, col) \<in> set cols"
      using c by (simp add: df')
    from list_all2_right_witness [OF all2 this]
    obtain x where xin: "x \<in> set (df_columns df)" and dx: "div_column rates x = Inr (n, col)" ..
    have "fst x = n" and "length col = length (snd x)"
      using div_column_shape [OF dx] by simp_all
    then show ?thesis
      using xin by (cases x) auto
  qed
qed

lemma from_dict_keys: "map fst (df_columns (from_dict series)) = map fst series"
  by (simp add: from_dict_def split_beta)

lemma autocorrelogram_normalized_shape:
  assumes "autocorrelogram_normalized rs grp b w ep nrm tu = Inr df1"
  shows "\<exists>ng. (case ep of Some e \<Rightarrow> rs grp e | None \<Rightarrow> Inr grp) = Inr ng
           \<and> map fst (df_columns df1) = group_keys ng"
    and "(n, col) \<in> set (df_columns df1) \<Longrightarrow> length col = length (df_index df1)"
proof -
  obtain ng bs ws series where
    ng: "(case ep of Some e \<Rightarrow> rs grp e | None \<Rightarrow> Inr grp) = Inr ng"
    and ser: "sequence_sum (map (\<lambda>(n, c).
             case cross_correlogram (index c) (index c) (hd bs) (hd ws) of
               Inl e \<Rightarrow> Inl e
             | Inr (auc, centres) \<Rightarrow> Inr (n, map (\<lambda>x. np_round x 6) centres, auc))
           (members ng)) = Inr series"
    and df1: "(if nrm then (case get_info ng (Key_str ''rate'') of
                              Inl e \<Rightarrow> Inl e
                            | Inr rates \<Rightarrow> df_div (from_dict series) rates)
               else Inr (from_dict series)) = Inr df1"
    using assms
    by (auto simp: autocorrelogram_normalized_def Let_def split: sum.splits)
  have keys_series: "map fst series = group_keys ng"
    using series_entries(1) [OF ser] by (simp add: group_keys_def)
  have shape0: "length col0 = length (df_index (from_dict series))"
    if "(n, col0) \<in> set (df_columns (from_dict series))" for col0
    using from_dict_shape [of series "hd bs" "hd ws" "\<lambda>x. np_round x 6" n col0]
      series_entries(2) [OF ser] that by simp
  show "\<exists>ng. (case ep of Some e \<Rightarrow> rs grp e | None \<Rightarrow> Inr grp) = Inr ng
           \<and> map fst (df_columns df1) = group_keys ng"
  proof (cases nrm)
    case False
    then show ?thesis
      using ng df1 keys_series by (auto simp: from_dict_keys)
  next
    case True
    then obtain rates where "df_div (from_dict series) rates = Inr df1"
      using df1 by (auto split: sum.splits)
    from df_div_shape(2) [OF this] show ?thesis
      using ng keys_series by (simp add: from_dict_keys)
  qed
  show "length col = length (df_index df1)" if c: "(n, col) \<in> set (df_columns df1)"
  proof (cases nrm)
    case False
    then show ?thesis
      using shape0 [of col] c df1 by simp
  next
    case True
    then obtain rates where d: "df_div (from_dict series) rates = Inr df1"
      using df1 by (auto split: sum.splits)
    obtain col0 where "(n, col0) \<in> set (df_columns (from_dict series))"
        and "length col = length col0"
      using df_div_shape(3) [OF d c] by blast
    then show ?thesis
      using shape0 [of col0] df_div_shape(1) [OF d] by simp
  qed
qed

lemma loc_set_shape:
  "df_index (loc_set df l v) = df_index df"
  "map fst (df_columns (loc_set df l v)) = map fst (df_columns df)"
  by (simp_all add: loc_set_def split_beta)

lemma loc_set_nth:
  assumes "j < length (df_columns df)"
  shows "snd (df_columns (loc_set df l v) ! j)
     = map (\<lambda>i. if df_index df ! i = l then v else snd (df_columns df ! j) ! i)
         [0..<length (snd (df_columns df ! j))]"
  using assms by (simp add: loc_set_def split_beta)

lemma zero_lag_rows:
  assumes df1: "autocorrelogram_normalized rs grp b w ep nrm tu = Inr df1"
  shows "\<exists>df ng. compute_autocorrelogram rs grp b w ep nrm tu = Inr df
      \<and> (case ep of Some e \<Rightarrow> rs grp e | None \<Rightarrow> Inr grp) = Inr ng
      \<and> df_index df = df_index df1
      \<and> map fst (df_columns df) = group_keys ng
      \<and> (\<forall>j < length (df_columns df). \<forall>i < length (df_index df).
            length (snd (df_columns df ! j)) = length (df_index df) \<and>
            snd (df_columns df ! j) ! i
              = (if df_index df ! i = 0 then Fin 0 else snd (df_columns df1 ! j) ! i))"
proof -
  obtain ng where ng: "(case ep of Some e \<Rightarrow> rs grp e | None \<Rightarrow> Inr grp) = Inr ng"
    and keys: "map fst (df_columns df1) = group_keys ng"
    using autocorrelogram_normalized_shape(1) [OF df1] by blast
  have len: "length (snd (df_columns df1 ! j)) = length (df_index df1)"
    if "j < length (df_columns df1)" for j
  proof -
    have "df_columns df1 ! j \<in> set (df_columns df1)"
      using that by simp
    then show ?thesis
      using autocorrelogram_normalized_shape(2) [OF df1, of "fst (df_columns df1 ! j)"]
      by simp
  qed
  show ?thesis
  proof (cases "0 \<in> set (df_index df1)")
    case True
    then have r: "compute_autocorrelogram rs grp b w ep nrm tu = Inr (loc_set df1 0 (Fin 0))"
      using df1 by (simp add: compute_autocorrelogram_def)
    have len': "length (df_columns (loc_set df1 0 (Fin 0))) = length (df_columns df1)"
      by (simp add: loc_set_def)
    show ?thesis
      unfolding r using keys len ng
      by (auto simp: loc_set_shape loc_set_nth len')
  next
    case False
    then have r: "compute_autocorrelogram rs grp b w ep nrm tu = Inr df1"
      using df1 by (simp add: compute_autocorrelogram_def)
    have "df_index df1 ! i \<noteq> 0" if "i < length (df_index df1)" for i
      using False that by (metis nth_mem)
    then show ?thesis
      unfolding r using keys len ng by auto
  qed
qed

lemma sequence_sum_all_Inr:
  "(\<And>x. x \<in> set xs \<Longrightarrow> \<exists>y. f x = Inr y) \<Longrightarrow> \<exists>ys. sequence_sum (map f xs) = Inr ys"
proof (induction xs)
  case Nil
  then show ?case by simp
next
  case (Cons a xs)
  obtain y where "f a = Inr y"
    using Cons.prems [of a] by auto
  moreover obtain ys where "sequence_sum (map f xs) = Inr ys"
    using Cons by auto
  ultimately show ?case by simp
qed

lemma format_timestamps_single:
  "tu \<in> {''s'', ''ms'', ''us''} \<Longrightarrow> \<exists>k>0. \<forall>x. format_timestamps [x] tu = Inr [x * k]"
  by (auto simp: format_timestamps_def intro: exI [of _ 1] exI [of _ "1 / 1000"] exI [of _ "1 / 1000000"])

lemma np_round_zero [simp]: "np_round 0 n = 0"
  by (simp add: np_round_def rint_def)

lemma df_div_returns:
  assumes "list_all (\<lambda>(n, v). is_MFloat v) rates"
  shows "\<exists>df'. df_div df (Info_series rates) = Inr df'"
proof -
  have "\<exists>y. div_column rates x = Inr y" for x :: "'a \<times> npfloat list"
  proof (cases "map_of rates (fst x)")
    case None
    then show ?thesis
      by (cases x) (simp add: div_column_def)
  next
    case (Some v)
    then have "(fst x, v) \<in> set rates"
      by (rule map_of_SomeD)
    then have "is_MFloat v"
      using assms by (auto simp: list_all_iff)
    then show ?thesis
      using Some by (cases x; cases v) (simp_all add: div_column_def)
  qed
  then obtain cols where "sequence_sum (map (div_column rates) (df_columns df)) = Inr cols"
    using sequence_sum_all_Inr [of "df_columns df" "div_column rates"] by blast
  then show ?thesis
    by (simp add: df_div_def)
qed

lemma autocorrelogram_normalized_returns:
  assumes tu: "tu \<in> {''s'', ''ms'', ''us''}" and b: "0 < b" and w: "b \<le> w"
    and ng: "(case ep of Some e \<Rightarrow> rs grp e | None \<Rightarrow> Inr grp) = Inr ng"
    and fr: "nrm \<longrightarrow> float_rates ng"
  shows "\<exists>df1. autocorrelogram_normalized rs grp b w ep nrm tu = Inr df1
           \<and> (members ng \<noteq> [] \<longrightarrow> 0 \<in> set (df_index df1))"
proof -
  obtain k where k: "0 < k" "\<And>x. format_timestamps [x] tu = Inr [x * k]"
    using format_timestamps_single [OF tu] by blast
  have bk: "0 < b * k" and wk: "b * k \<le> w * k"
    using b w k(1) by simp_all
  let ?F = "\<lambda>(n, c). case cross_correlogram (index c) (index c) (b * k) (w * k) of
               Inl e \<Rightarrow> Inl e
             | Inr (auc, centres) \<Rightarrow> Inr (n, map (\<lambda>x. np_round x 6) centres, auc)"
  have each: "\<exists>y. ?F x = Inr y \<and> 0 \<in> set (fst (snd y))" for x
  proof -
    obtain n c where x: "x = (n, c)" by (cases x) auto
    obtain C B where cc: "cross_correlogram (index c) (index c) (b * k) (w * k) = Inr (C, B)"
        and odd: "odd (length B)" and mid: "B ! ((length B - 1) div 2) = 0"
      using bin_centres_grid [OF bk wk, of "index c" "index c"] by blast
    have "(length B - 1) div 2 < length B"
      using odd by (cases "length B") auto
    then have "0 \<in> set B"
      using mid by (metis nth_mem)
    then have "0 \<in> set (map (\<lambda>x. np_round x 6) B)"
      by (auto simp: image_iff intro!: bexI [of _ 0])
    then show ?thesis
      using cc by (simp add: x)
  qed
  obtain series where ser: "sequence_sum (map ?F (members ng)) = Inr series"
    using sequence_sum_all_Inr [of "members ng" ?F] each by blast
  let ?df0 = "from_dict series"
  have zero0: "0 \<in> set (df_index ?df0)" if ne: "members ng \<noteq> []"
  proof -
    have all2: "list_all2 (\<lambda>x y. ?F x = Inr y) (members ng) series"
      using ser by (rule sequence_sum_map)
    obtain x xs y ys where "members ng = x # xs" and series': "series = y # ys"
        and fx: "?F x = Inr y"
      using all2 ne by (cases "members ng"; cases series) auto
    obtain y' where "?F x = Inr y'" "0 \<in> set (fst (snd y'))"
      using each [of x] by blast
    then have "0 \<in> set (fst (snd y))"
      using fx by simp
    then show ?thesis
      unfolding series' by (cases y) (simp add: from_dict_def)
  qed
  show ?thesis
  proof (cases nrm)
    case False
    then have "autocorrelogram_normalized rs grp b w ep nrm tu = Inr ?df0"
      using ng ser by (simp add: autocorrelogram_normalized_def k(2) Let_def)
    then show ?thesis
      using zero0 by auto
  next
    case True
    then obtain rates where gi: "get_info ng (Key_str ''rate'') = Inr (Info_series rates)"
        and fl: "list_all (\<lambda>(n, v). is_MFloat v) rates"
      using fr by (auto simp: float_rates_def split: sum.splits info.splits)
    obtain df1 where d: "df_div ?df0 (Info_series rates) = Inr df1"
      using df_div_returns [OF fl] by blast
    have "autocorrelogram_normalized rs grp b w ep nrm tu = Inr df1"
      using ng ser True gi d by (simp add: autocorrelogram_normalized_def k(2) Let_def)
    then show ?thesis
      using zero0 df_div_shape(1) [OF d] by auto
  qed
qed

lemma get_info_missing_column:
  "map_of (metadata grp) s = None \<Longrightarrow> get_info grp (Key_str s) = Inl (KeyError s)"
  by (simp add: get_info_def)

lemma compute_autocorrelogram_missing_rate:
  "compute_autocorrelogram (\<lambda>g e. Inr g)
     \<lparr>members = [(1::nat, \<lparr>index = [0, 10], values_of = A1 [0, 0],
                   time_support = [(0, 10)], rate = Fin (1 / 5), nap_class = ''Ts''\<rparr>)],
      metadata = []\<rparr> 1 1 None True ''s''
   = Inl (KeyError ''rate'')"
  by code_simp

text \<open>
  C7. \<open>compute_autocorrelogram\<close> returns the frame of the normalisation step with the
  rows labelled 0 overwritten: the columns are the keys of the group (of the restricted
  group when an epoch is given), every column has one value per bin centre, the value in
  a row labelled 0 is exactly \<open>0.0\<close>, and the value in any other row is the one computed
  before (normalised when \<open>norm\<close> is set). For a valid time unit, a bin size \<open>> 0\<close>, a
  window \<open>\<ge>\<close> the bin size, a restriction that returns and, when \<open>norm\<close> is set, a
  metadata column \<open>rate\<close> of floats, the function returns, and for a group that is not
  empty a row labelled 0 exists.
\<close>

theorem autocorrelogram_zero_lag:
  "(autocorrelogram_normalized rs grp b w ep nrm tu = Inr df1 \<longrightarrow>
      (\<exists>df ng'. compute_autocorrelogram rs grp b w ep nrm tu = Inr df
         \<and> (case ep of Some e \<Rightarrow> rs grp e | None \<Rightarrow> Inr grp) = Inr ng'
         \<and> df_index df = df_index df1
         \<and> map fst (df_columns df) = group_keys ng'
         \<and> (\<forall>j < length (df_columns df). \<forall>i < length (df_index df).
               length (snd (df_columns df ! j)) = length (df_index df) \<and>
               snd (df_columns df ! j) ! i
                 = (if df_index df ! i = 0 then Fin 0 else snd (df_columns df1 ! j) ! i))))
   \<and> (tu \<in> {''s'', ''ms'', ''us''} \<and> 0 < b \<and> b \<le> w
        \<and> (case ep of Some e \<Rightarrow> rs grp e | None \<Rightarrow> Inr grp) = Inr ng
        \<and> (nrm \<longrightarrow> float_rates ng) \<longrightarrow>
      (\<exists>df1. autocorrelogram_normalized rs grp b w ep nrm tu = Inr df1
         \<and> (members ng \<noteq> [] \<longrightarrow> 0 \<in> set (df_index df1))))"
proof (intro conjI impI)
  show "\<exists>df ng'. compute_autocorrelogram rs grp b w ep nrm tu = Inr df
         \<and> (case ep of Some e \<Rightarrow> rs grp e | None \<Rightarrow> Inr grp) = Inr ng'
         \<and> df_index df = df_index df1
         \<and> map fst (df_columns df) = group_keys ng'
         \<and> (\<forall>j < length (df_columns df). \<forall>i < length (df_index df).
               length (snd (df_columns df ! j)) = length (df_index df) \<and>
               snd (df_columns df ! j) ! i
                 = (if df_index df ! i = 0 then Fin 0 else snd (df_columns df1 ! j) ! i))"
    if "autocorrelogram_normalized rs grp b w ep nrm tu = Inr df1"
    using that by (rule zero_lag_rows)
  show "\<exists>df1. autocorrelogram_normalized rs grp b w ep nrm tu = Inr df1
         \<and> (members ng \<noteq> [] \<longrightarrow> 0 \<in> set (df_index df1))"
    if h: "tu \<in> {''s'', ''ms'', ''us''} \<and> 0 < b \<and> b \<le> w
        \<and> (case ep of Some e \<Rightarrow> rs grp e | None \<Rightarrow> Inr grp) = Inr ng
        \<and> (nrm \<longrightarrow> float_rates ng)"
  proof (rule autocorrelogram_normalized_returns)
    show "tu \<in> {''s'', ''ms'', ''us''}" "0 < b" "b \<le> w"
      "(case ep of Some e \<Rightarrow> rs grp e | None \<Rightarrow> Inr grp) = Inr ng"
      "nrm \<longrightarrow> float_rates ng"
      using h by simp_all
  qed
qed

lemma autocorrelogram_normalized_example:
  "autocorrelogram_normalized (\<lambda>g e. Inr g)
     \<lparr>members = [(1::nat, \<lparr>index = [0, 10], values_of = A1 [0, 0],
                   time_support = [(0, 10)], rate = Fin (1 / 5), nap_class = ''Ts''\<rparr>)],
      metadata = [(''rate'', [MFloat (Fin (1 / 5))])]\<rparr> 1 1 None True ''s''
   = Inr \<lparr>df_index = [- 1, 0, 1], df_columns = [(1, [Fin 0, Fin 5, Fin 0])]\<rparr>"
  by code_simp

lemma compute_autocorrelogram_example:
  "compute_autocorrelogram (\<lambda>g e. Inr g)
     \<lparr>members = [(1::nat, \<lparr>index = [0, 10], values_of = A1 [0, 0],
                   time_support = [(0, 10)], rate = Fin (1 / 5), nap_class = ''Ts''\<rparr>)],
      metadata = [(''rate'', [MFloat (Fin (1 / 5))])]\<rparr> 1 1 None True ''s''
   = Inr \<lparr>df_index = [- 1, 0, 1], df_columns = [(1, [Fin 0, Fin 0, Fin 0])]\<rparr>"
  by code_simp

lemma float_rates_example:
  "float_rates
     \<lparr>members = [(1::nat, \<lparr>index = [0, 10], values_of = A1 [0, 0],
                   time_support = [(0, 10)], rate = Fin (1 / 5), nap_class = ''Ts''\<rparr>)],
      metadata = [(''rate'', [MFloat (Fin (1 / 5))])]\<rparr>"
  by code_simp

theorem autocorrelogram_zero_lag_witness:
  "autocorrelogram_normalized (\<lambda>g e. Inr g)
     \<lparr>members = [(1::nat, \<lparr>index = [0, 10], values_of = A1 [0, 0],
                   time_support = [(0, 10)], rate = Fin (1 / 5), nap_class = ''Ts''\<rparr>)],
      metadata = [(''rate'', [MFloat (Fin (1 / 5))])]\<rparr> 1 1 None True ''s''
     = Inr \<lparr>df_index = [- 1, 0, 1], df_columns = [(1, [Fin 0, Fin 5, Fin 0])]\<rparr>
   \<and> compute_autocorrelogram (\<lambda>g e. Inr g)
     \<lparr>members = [(1::nat, \<lparr>index = [0, 10], values_of = A1 [0, 0],
                   time_support = [(0, 10)], rate = Fin (1 / 5), nap_class = ''Ts''\<rparr>)],
      metadata = [(''rate'', [MFloat (Fin (1 / 5))])]\<rparr> 1 1 None True ''s''
     = Inr \<lparr>df_index = [- 1, 0, 1], df_columns = [(1, [Fin 0, Fin 0, Fin 0])]\<rparr>
   \<and> float_rates
     \<lparr>members = [(1::nat, \<lparr>index = [0, 10], values_of = A1 [0, 0],
                   time_support = [(0, 10)], rate = Fin (1 / 5), nap_class = ''Ts''\<rparr>)],
      metadata = [(''rate'', [MFloat (Fin (1 / 5))])]\<rparr>
   \<and> ''s'' \<in> {''s'', ''ms'', ''us''} \<and> (0::real) < 1 \<and> (1::real) \<le> 1
   \<and> (0::real) \<in> set [- 1, 0, 1]"
  using autocorrelogram_zero_lag
    [of "\<lambda>g e. Inr g"
        "\<lparr>members = [(1::nat, \<lparr>index = [0, 10], values_of = A1 [0, 0],
                   time_support = [(0, 10)], rate = Fin (1 / 5), nap_class = ''Ts''\<rparr>)],
          metadata = [(''rate'', [MFloat (Fin (1 / 5))])]\<rparr>"
        1 1 None True "''s''"
        "\<lparr>df_index = [- 1, 0, 1], df_columns = [(1, [Fin 0, Fin 5, Fin 0])]\<rparr>"
        "\<lparr>members = [(1::nat, \<lparr>index = [0, 10], values_of = A1 [0, 0],
                   time_support = [(0, 10)], rate = Fin (1 / 5), nap_class = ''Ts''\<rparr>)],
          metadata = [(''rate'', [MFloat (Fin (1 / 5))])]\<rparr>"]
    autocorrelogram_normalized_example compute_autocorrelogram_example float_rates_example
  by simp

end
